theory Spec2Isabelle
  imports Complex_Main "HOL-Library.AList" "HOL-Library.Multiset" "HOL-Library.Product_Lexorder"
    "HOL-Library.Log_Nat"
begin

section \<open>Violoncello: the page loader, the link order and the Backspace key\<close>

text \<open>
  The development embeds \<^verbatim>\<open>src/src/app.js\<close>. A JavaScript string is a \<open>string\<close>; a
  character of the model is a UTF-16 code unit below 256. The interfaces of the platform
  that the script calls (the URL parser, \<^verbatim>\<open>URLSearchParams\<close>, \<^verbatim>\<open>decodeURIComponent\<close>,
  \<^verbatim>\<open>DOMParser\<close>, \<^verbatim>\<open>xhr.open\<close>, the network) are parameters, collected in the record \<open>platform\<close>.
\<close>

subsection \<open>String built-ins\<close>

definition startsWith :: "string \<Rightarrow> string \<Rightarrow> bool" where
  "startsWith s p = (take (length p) s = p)"

fun str_includes :: "string \<Rightarrow> string \<Rightarrow> bool" where
  "str_includes [] sub = (sub = [])"
| "str_includes (c # cs) sub = (startsWith (c # cs) sub \<or> str_includes cs sub)"

text \<open>White space of \<^verbatim>\<open>String.prototype.trim\<close> and \<^verbatim>\<open>parseInt\<close> among the code units
  below 256: TAB, LF, VT, FF, CR, SP and NBSP.\<close>

definition isWhiteSpace :: "char \<Rightarrow> bool" where
  "isWhiteSpace c = (of_char c \<in> {9, 10, 11, 12, 13, 32, 160 :: nat})"

definition trim :: "string \<Rightarrow> string" where
  "trim s = rev (dropWhile isWhiteSpace (rev (dropWhile isWhiteSpace s)))"

text \<open>\<^verbatim>\<open>toLowerCase\<close> on code units below 256: A-Z and the capital letters of Latin-1.\<close>

definition lowerChar :: "char \<Rightarrow> char" where
  "lowerChar c =
     (let n = (of_char c :: nat)
      in if (65 \<le> n \<and> n \<le> 90) \<or> (192 \<le> n \<and> n \<le> 214) \<or> (216 \<le> n \<and> n \<le> 222)
         then char_of (n + 32) else c)"

definition toLowerCase :: "string \<Rightarrow> string" where
  "toLowerCase s = map lowerChar s"

text \<open>\<^verbatim>\<open>encodeURIComponent\<close>: letters, digits and \<^verbatim>\<open>- _ . ! ~ * ' ( )\<close> are kept, every
  other code unit is written as the percent-escaped bytes of its UTF-8 encoding.\<close>

definition hexDigit :: "nat \<Rightarrow> char" where
  "hexDigit n = (if n < 10 then char_of (48 + n) else char_of (55 + n))"

definition percentByte :: "nat \<Rightarrow> string" where
  "percentByte b = [CHR ''%'', hexDigit (b div 16), hexDigit (b mod 16)]"

definition uriUnreserved :: "char \<Rightarrow> bool" where
  "uriUnreserved c =
     (let n = (of_char c :: nat)
      in (65 \<le> n \<and> n \<le> 90) \<or> (97 \<le> n \<and> n \<le> 122) \<or> (48 \<le> n \<and> n \<le> 57)
         \<or> c \<in> set ''-_.!~*()'' \<or> n = 39)"

definition encodeChar :: "char \<Rightarrow> string" where
  "encodeChar c =
     (let n = (of_char c :: nat)
      in if uriUnreserved c then [c]
         else if n < 128 then percentByte n
         else percentByte (192 + n div 64) @ percentByte (128 + n mod 64))"

definition encodeURIComponent :: "string \<Rightarrow> string" where
  "encodeURIComponent s = concat (map encodeChar s)"

subsection \<open>The platform\<close>

text \<open>The fields of a parsed \<^verbatim>\<open>URL\<close> object that the script reads.\<close>

record url =
  protocol :: string
  hostname :: string
  pathname :: string
  search :: string
  href :: string

text \<open>A DOM node. An element has its namespace, its local name as the HTML parser produces
  it (in lower case for an HTML element), its attribute list, its children and, for a
  \<^verbatim>\<open>template\<close> element, the nodes of its content fragment; every other node kind is \<open>Text\<close>.
  \<^verbatim>\<open>querySelectorAll\<close> walks the children and never enters the content fragment of a
  template; \<^verbatim>\<open>cloneNode(true)\<close> copies both. The names in an attribute list are distinct, as
  in every list that the parser or \<^verbatim>\<open>setAttribute\<close> builds.\<close>

datatype namespace = HTML | MathML | SVG

datatype node = Text string | Element (namespace: namespace) (localName: string) (attributes: "(string \<times> string) list") (childNodes: "node list") (templateContents: "node list")
  where "childNodes (Text s) = []" | "templateContents (Text s) = []"

text \<open>An HTML element that is not a template.\<close>

abbreviation HtmlElement :: "string \<Rightarrow> (string \<times> string) list \<Rightarrow> node list \<Rightarrow> node" where
  "HtmlElement t as cs \<equiv> Element HTML t as cs []"

text \<open>The document that \<^verbatim>\<open>DOMParser\<close> returns: its root element, and whether it is in quirks
  mode (it is when the markup has no doctype).\<close>

record document =
  documentElement :: node
  quirksMode :: bool

text \<open>
  \<^item> \<open>newURL s\<close> is \<^verbatim>\<open>new URL(s)\<close>, \<open>None\<close> when it throws;
  \<^item> \<open>newURLWithBase h b\<close> is \<^verbatim>\<open>new URL(h, b)\<close>, \<open>None\<close> when it throws;
  \<^item> \<open>searchParamsGet q k\<close> is \<^verbatim>\<open>new URLSearchParams(q).get(k)\<close>, \<open>None\<close> for \<^verbatim>\<open>null\<close>;
  \<^item> \<open>decodeURIComponent s\<close> is \<open>None\<close> when it throws;
  \<^item> \<open>parseFromString s\<close> is \<^verbatim>\<open>new DOMParser().parseFromString(s, 'text/html')\<close>;
  \<^item> \<open>xhrOpen u\<close> tells whether \<^verbatim>\<open>xhr.open('GET', u, true)\<close> returns; it throws otherwise.
\<close>

record platform =
  newURL :: "string \<Rightarrow> url option"
  newURLWithBase :: "string \<Rightarrow> string \<Rightarrow> url option"
  searchParamsGet :: "string \<Rightarrow> string \<Rightarrow> string option"
  decodeURIComponent :: "string \<Rightarrow> string option"
  parseFromString :: "string \<Rightarrow> document"
  xhrOpen :: "string \<Rightarrow> bool"

subsection \<open>Attributes and selectors\<close>

type_synonym attrs = "(string \<times> string) list"

definition getAttribute :: "string \<Rightarrow> attrs \<Rightarrow> string option" where
  "getAttribute name as = map_of as name"

definition setAttribute :: "string \<Rightarrow> string \<Rightarrow> attrs \<Rightarrow> attrs" where
  "setAttribute name v as = AList.update name v as"

definition removeAttribute :: "string \<Rightarrow> attrs \<Rightarrow> attrs" where
  "removeAttribute name as = AList.delete name as"

definition isAsciiSpace :: "char \<Rightarrow> bool" where
  "isAsciiSpace c = (of_char c \<in> {9, 10, 12, 13, 32 :: nat})"

fun splitTokens :: "string \<Rightarrow> string \<Rightarrow> string list" where
  "splitTokens acc [] = (if acc = [] then [] else [acc])"
| "splitTokens acc (c # cs) =
     (if isAsciiSpace c then (if acc = [] then splitTokens [] cs else acc # splitTokens [] cs)
      else splitTokens (acc @ [c]) cs)"

text \<open>The token set of \<^verbatim>\<open>el.classList\<close>: the tokens of the class attribute, each kept at
  its first occurrence.\<close>

definition classList :: "attrs \<Rightarrow> string list" where
  "classList as = rev (remdups (rev (splitTokens [] (case getAttribute ''class'' as of None \<Rightarrow> [] | Some v \<Rightarrow> v))))"

fun joinTokens :: "string list \<Rightarrow> string" where
  "joinTokens [] = []"
| "joinTokens [t] = t"
| "joinTokens (t # ts) = t @ '' '' @ joinTokens ts"

definition classListAdd :: "string \<Rightarrow> attrs \<Rightarrow> attrs" where
  "classListAdd tok as =
     (let ts = classList as
      in setAttribute ''class'' (joinTokens (if tok \<in> set ts then ts else ts @ [tok])) as)"

text \<open>Ids and classes are compared exactly, and in a document in quirks mode without regard
  to the case of the letters A to Z.\<close>

definition asciiLower :: "string \<Rightarrow> string" where
  "asciiLower s = map (\<lambda>c. if 65 \<le> (of_char c :: nat) \<and> (of_char c :: nat) \<le> 90 then char_of (of_char c + 32 :: nat) else c) s"

definition hasId :: "bool \<Rightarrow> string \<Rightarrow> attrs \<Rightarrow> bool" where
  "hasId quirks name as =
     (case getAttribute ''id'' as of
        None \<Rightarrow> False
      | Some v \<Rightarrow> if quirks then asciiLower v = asciiLower name else v = name)"

definition hasClass :: "bool \<Rightarrow> string \<Rightarrow> attrs \<Rightarrow> bool" where
  "hasClass quirks name as =
     (if quirks then asciiLower name \<in> set (map asciiLower (classList as)) else name \<in> set (classList as))"

text \<open>The selector of line 127:
  \<^verbatim>\<open>article, main, [role="main"], #content, .content, .post, .results, #links\<close>. A type
  selector matches the local name in every namespace.\<close>

fun matchesContentSelector :: "bool \<Rightarrow> node \<Rightarrow> bool" where
  "matchesContentSelector quirks (Text s) = False"
| "matchesContentSelector quirks (Element ns t as cs tc) =
     (t = ''article'' \<or> t = ''main'' \<or> getAttribute ''role'' as = Some ''main''
      \<or> hasId quirks ''content'' as
      \<or> hasClass quirks ''content'' as \<or> hasClass quirks ''post'' as
      \<or> hasClass quirks ''results'' as
      \<or> hasId quirks ''links'' as)"

definition junkTags :: "string list" where
  "junkTags = [''script'', ''style'', ''iframe'', ''ads'', ''nav'', ''footer'', ''img'', ''video'',
     ''svg'', ''input'', ''button'', ''form'', ''noscript'', ''canvas'', ''object'']"

fun isJunk :: "node \<Rightarrow> bool" where
  "isJunk (Text s) = False"
| "isJunk (Element ns t as cs tc) = (t \<in> set junkTags)"

text \<open>The elements of a tree in document order, the root first; the content of a template
  is not in the tree.\<close>

fun elementsOf :: "node \<Rightarrow> node list" where
  "elementsOf (Text s) = []"
| "elementsOf (Element ns t as cs tc) = Element ns t as cs tc # concat (map elementsOf cs)"

text \<open>\<^verbatim>\<open>doc.querySelector(sel)\<close>: the first element of the document, in document order,
  that matches.\<close>

definition querySelector :: "(node \<Rightarrow> bool) \<Rightarrow> node \<Rightarrow> node option" where
  "querySelector sel doc = find sel (elementsOf doc)"

text \<open>\<^verbatim>\<open>doc.body\<close>: the first child of the html element that is an HTML body or frameset
  element, or \<^verbatim>\<open>null\<close>.\<close>

fun isBody :: "node \<Rightarrow> bool" where
  "isBody (Text s) = False"
| "isBody (Element ns t as cs tc) = (ns = HTML \<and> (t = ''body'' \<or> t = ''frameset''))"

fun body :: "node \<Rightarrow> node option" where
  "body (Text s) = None"
| "body (Element ns t as cs tc) = (if ns = HTML \<and> t = ''html'' then find isBody cs else None)"

subsection \<open>The scraper (lines 123 to 189 of \<^verbatim>\<open>loadPage\<close>)\<close>

text \<open>Lines 130 and 131: every descendant of the source that matches the junk selector is
  removed from its parent. The content of a template is not searched.\<close>

fun removeJunk :: "node \<Rightarrow> node" where
  "removeJunk (Text s) = Text s"
| "removeJunk (Element ns t as cs tc) = Element ns t as (map removeJunk (filter (\<lambda>c. \<not> isJunk c) cs)) tc"

text \<open>Line 141: \<^verbatim>\<open>/^on/i.test(attr.name)\<close>.\<close>

fun isEventHandlerName :: "string \<Rightarrow> bool" where
  "isEventHandlerName (c1 # c2 # cs) = ((c1 = CHR ''o'' \<or> c1 = CHR ''O'') \<and> (c2 = CHR ''n'' \<or> c2 = CHR ''N''))"
| "isEventHandlerName cs = False"

text \<open>Lines 140 to 144: the loop runs over a copy of the attribute list and removes from
  the element.\<close>

definition removeEventHandlers :: "attrs \<Rightarrow> attrs" where
  "removeEventHandlers as =
     foldl (\<lambda>cur (name, v). if isEventHandlerName name then removeAttribute name cur else cur) as as"

definition allowedProtocols :: "string list" where
  "allowedProtocols = [''http:'', ''https:'', ''mailto:'', ''ftp:'']"

text \<open>Lines 147 to 162: the href of a hyperlink, resolved against the page's URL.\<close>

definition rewriteHref :: "platform \<Rightarrow> string \<Rightarrow> attrs \<Rightarrow> attrs" where
  "rewriteHref env u as =
     (case getAttribute ''href'' as of
        None \<Rightarrow> as
      | Some h \<Rightarrow>
          if h = [] then as
          else (case newURLWithBase env h u of
                  None \<Rightarrow> removeAttribute ''href'' as
                | Some resolved \<Rightarrow>
                    if protocol resolved \<in> set allowedProtocols
                    then setAttribute ''href'' (href resolved) as
                    else removeAttribute ''href'' as))"

text \<open>Lines 136 to 170, for one element. \<^verbatim>\<open>el.tagName === 'A'\<close> holds of an HTML element with
  the local name \<^verbatim>\<open>a\<close>: the tag name of an element of another namespace is not in upper
  case.\<close>

definition processAttributes :: "platform \<Rightarrow> string \<Rightarrow> namespace \<Rightarrow> string \<Rightarrow> attrs \<Rightarrow> attrs" where
  "processAttributes env u ns t as =
     (let as1 = removeEventHandlers (removeAttribute ''style'' as)
      in if ns = HTML \<and> t = ''a''
         then setAttribute ''rel'' ''noreferrer''
                (removeAttribute ''target''
                  (setAttribute ''tabindex'' ''0''
                    (classListAdd ''kai-link'' (rewriteHref env u as1))))
         else as1)"

text \<open>Lines 134 to 170: every descendant of the source; the content of a template is not
  among them.\<close>

fun processElement :: "platform \<Rightarrow> string \<Rightarrow> node \<Rightarrow> node" where
  "processElement env u (Text s) = Text s"
| "processElement env u (Element ns t as cs tc) =
     Element ns t (processAttributes env u ns t as) (map (processElement env u) cs) tc"

text \<open>Lines 292 to 296 of \<^verbatim>\<open>setupLinkInteractions\<close>, on the published nodes: the selector
  \<^verbatim>\<open>#reader a\<close> matches the local name in every namespace.\<close>

fun normalizeAnchors :: "node \<Rightarrow> node" where
  "normalizeAnchors (Text s) = Text s"
| "normalizeAnchors (Element ns t as cs tc) =
     Element ns t
       (if t = ''a''
        then setAttribute ''tabindex'' ''0''
               (if ''kai-link'' \<in> set (classList as) then as else classListAdd ''kai-link'' as)
        else as)
       (map normalizeAnchors cs) tc"

text \<open>Line 127: the source is the first match of the content selector, or the body. A
  \<^verbatim>\<open>null\<close> source makes line 130 throw, which is \<open>None\<close> here.\<close>

definition selectSource :: "document \<Rightarrow> node option" where
  "selectSource doc =
     (case querySelector (matchesContentSelector (quirksMode doc)) (documentElement doc) of
        Some s \<Rightarrow> Some s
      | None \<Rightarrow> body (documentElement doc))"

text \<open>The nodes that lines 123 to 189 put into the reader: the clones of the children of
  the cleaned source, each with all that \<^verbatim>\<open>cloneNode(true)\<close> copies.\<close>

definition scrape :: "platform \<Rightarrow> string \<Rightarrow> string \<Rightarrow> node list option" where
  "scrape env u htmlString =
     (case selectSource (parseFromString env htmlString) of
        None \<Rightarrow> None
      | Some source \<Rightarrow>
          Some (map normalizeAnchors
                 (map (processElement env u) (childNodes (removeJunk source)))))"

subsection \<open>The global state\<close>

text \<open>What the reader element shows: the markup of \<^verbatim>\<open>index.html\<close>, the welcome screen, the
  error view of \<^verbatim>\<open>showError\<close> with its message, or a scraped page.\<close>

datatype view = InitialView | WelcomeView | ErrorView string | Page "node list"

text \<open>The globals of lines 7 to 15, the content of the reader, the value of the URL input,
  the notifications shown so far and whether \<^verbatim>\<open>window.close()\<close> was called.\<close>

record state =
  isMenuOpen :: bool
  isUrlBarOpen :: bool
  isAboutOpen :: bool
  currUrl :: string
  historyStack :: "string list"
  isLoading :: bool
  selectedLinkIndex :: int
  reader :: view
  urlInput :: string
  notifications :: "string list"
  windowClosed :: bool

definition MAX_HISTORY :: nat where
  "MAX_HISTORY = 50"

definition initialState :: state where
  "initialState =
     \<lparr>isMenuOpen = False, isUrlBarOpen = False, isAboutOpen = False, currUrl = [],
      historyStack = [], isLoading = False, selectedLinkIndex = - 1, reader = InitialView,
      urlInput = [], notifications = [], windowClosed = False\<rparr>"

definition showError :: "string \<Rightarrow> state \<Rightarrow> state" where
  "showError message st = st\<lparr>reader := ErrorView message\<rparr>"

definition showNotification :: "string \<Rightarrow> state \<Rightarrow> state" where
  "showNotification message st = st\<lparr>notifications := notifications st @ [message]\<rparr>"

definition showWelcome :: "state \<Rightarrow> state" where
  "showWelcome st = st\<lparr>reader := WelcomeView, currUrl := []\<rparr>"

definition clearLinkSelection :: "state \<Rightarrow> state" where
  "clearLinkSelection st = st\<lparr>selectedLinkIndex := - 1\<rparr>"

definition toggleUrlBar :: "state \<Rightarrow> state" where
  "toggleUrlBar st =
     (let st' = st\<lparr>isUrlBarOpen := \<not> isUrlBarOpen st\<rparr>
      in if isUrlBarOpen st' then clearLinkSelection st' else st')"

definition openMenu :: "state \<Rightarrow> state" where
  "openMenu st = (clearLinkSelection st)\<lparr>isMenuOpen := True\<rparr>"

definition closeMenu :: "state \<Rightarrow> state" where
  "closeMenu st = st\<lparr>isMenuOpen := False\<rparr>"

definition openAbout :: "state \<Rightarrow> state" where
  "openAbout st = st\<lparr>isMenuOpen := False, isAboutOpen := True\<rparr>"

definition closeAbout :: "state \<Rightarrow> state" where
  "closeAbout st = st\<lparr>isAboutOpen := False\<rparr>"

subsection \<open>\<^verbatim>\<open>loadPage\<close>\<close>

text \<open>Lines 63 to 70: the current location is pushed before the request is made.\<close>

definition pushHistory :: "string \<Rightarrow> bool \<Rightarrow> state \<Rightarrow> state" where
  "pushHistory u isBackAction st =
     (if \<not> isBackAction \<and> currUrl st \<noteq> [] \<and> currUrl st \<noteq> u
      then (let h = historyStack st @ [currUrl st]
            in st\<lparr>historyStack := (if length h > MAX_HISTORY then tl h else h)\<rparr>)
      else st)"

text \<open>Lines 73 to 96: the target of a DuckDuckGo result link. Every \<^verbatim>\<open>catch\<close> of the source
  keeps the URL.\<close>

definition unwrapRedirector :: "platform \<Rightarrow> string \<Rightarrow> string" where
  "unwrapRedirector env u =
     (case newURL env u of
        None \<Rightarrow> u
      | Some parsedTemp \<Rightarrow>
          if str_includes (hostname parsedTemp) ''duckduckgo.com'' \<and> startsWith (pathname parsedTemp) ''/l/''
          then (case searchParamsGet env (search parsedTemp) ''uddg'' of
                  None \<Rightarrow> u
                | Some uddg \<Rightarrow>
                    if uddg = [] then u
                    else (case decodeURIComponent env uddg of
                            None \<Rightarrow> u
                          | Some decodedUrl \<Rightarrow>
                              (case newURL env decodedUrl of
                                 None \<Rightarrow> u
                               | Some parsed \<Rightarrow>
                                   if protocol parsed \<in> set allowedProtocols then decodedUrl else u)))
          else u)"

text \<open>How the request of lines 102 to 107 ends: \<^verbatim>\<open>onerror\<close>, \<^verbatim>\<open>ontimeout\<close>, or \<^verbatim>\<open>onload\<close> with the
  status, the Content-Type header (\<open>None\<close> for \<^verbatim>\<open>null\<close>) and the response text.\<close>

datatype xhr_result = NetworkError | Timeout | Loaded nat "string option" string

text \<open>Line 113.\<close>

definition unsupportedContentType :: "string option \<Rightarrow> bool" where
  "unsupportedContentType ct =
     (case ct of
        None \<Rightarrow> False
      | Some c \<Rightarrow> c \<noteq> [] \<and> \<not> str_includes (toLowerCase c) ''html'' \<and> \<not> startsWith (toLowerCase c) ''text/'')"

text \<open>Lines 195 to 199: the \<^verbatim>\<open>catch\<close> and the \<^verbatim>\<open>finally\<close>.\<close>

definition loadFailed :: "state \<Rightarrow> state" where
  "loadFailed st =
     (showError ''Failed to load page. Site may be blocking access or you may be offline.'' st)\<lparr>isLoading := False\<rparr>"

text \<open>\<^verbatim>\<open>loadPage\<close> up to the \<^verbatim>\<open>await\<close> of line 102: the new state and the URL of the request
  that was sent, if one was. A \<^verbatim>\<open>url\<close> that is not a string takes the branch of the empty
  string. When \<^verbatim>\<open>xhr.open\<close> throws (line 99) the \<^verbatim>\<open>catch\<close> and the \<^verbatim>\<open>finally\<close> run at once and
  no request is sent.\<close>

definition loadPage_sync :: "platform \<Rightarrow> string \<Rightarrow> bool \<Rightarrow> state \<Rightarrow> state \<times> string option" where
  "loadPage_sync env u isBackAction st =
     (if isLoading st then (st, None)
      else if u = [] then (showError ''Invalid URL'' st, None)
      else (let st1 = pushHistory u isBackAction (st\<lparr>isLoading := True\<rparr>);
                u' = unwrapRedirector env u
            in if xhrOpen env u' then (st1, Some u') else (loadFailed st1, None)))"

text \<open>\<^verbatim>\<open>loadPage\<close> from line 102 on, for the request to \<open>u\<close> that ended as \<open>r\<close>.\<close>

definition loadPage_complete :: "platform \<Rightarrow> string \<Rightarrow> xhr_result \<Rightarrow> state \<Rightarrow> state" where
  "loadPage_complete env u r st =
     (case r of
        Loaded status ct htmlString \<Rightarrow>
          if 200 \<le> status \<and> status < 300
          then if unsupportedContentType ct
               then (showNotification ''This content type cannot be rendered in-app.'' st)\<lparr>isLoading := False\<rparr>
               else (case scrape env u htmlString of
                       None \<Rightarrow> loadFailed st
                     | Some ns \<Rightarrow>
                         (clearLinkSelection (st\<lparr>reader := Page ns\<rparr>))
                           \<lparr>currUrl := u, urlInput := u, isLoading := False\<rparr>)
          else loadFailed st
      | _ \<Rightarrow> loadFailed st)"

text \<open>A load that no other event interrupts.\<close>

definition loadPage :: "platform \<Rightarrow> string \<Rightarrow> bool \<Rightarrow> xhr_result \<Rightarrow> state \<Rightarrow> state" where
  "loadPage env u isBackAction r st =
     (case loadPage_sync env u isBackAction st of
        (st', None) \<Rightarrow> st'
      | (st', Some u') \<Rightarrow> loadPage_complete env u' r st')"

subsection \<open>\<^verbatim>\<open>handleUrlSubmit\<close>\<close>

datatype error = InvalidUrlFormat

text \<open>Lines 364 to 378, for the trimmed input: the URL to load, or the error of line 375.\<close>

definition submittedUrl :: "platform \<Rightarrow> string \<Rightarrow> error + string" where
  "submittedUrl env input =
     (if \<not> str_includes input ''.'' \<or> str_includes input '' ''
      then Inr (''https://duckduckgo.com/html/?q='' @ encodeURIComponent input)
      else (let candidate = (if startsWith input ''http'' then input else ''https://'' @ input)
            in case newURL env candidate of
                 None \<Rightarrow> Inl InvalidUrlFormat
               | Some parsed \<Rightarrow> Inr candidate))"

definition handleUrlSubmit :: "platform \<Rightarrow> state \<Rightarrow> state \<times> string option" where
  "handleUrlSubmit env st =
     (let input = trim (urlInput st)
      in if input = [] then (st, None)
         else (case submittedUrl env input of
                 Inl e \<Rightarrow> (showError ''Invalid URL format. Please enter a valid website address.'' st, None)
               | Inr u \<Rightarrow> loadPage_sync env u False (toggleUrlBar st)))"

subsection \<open>The Backspace key (lines 693 to 710 and 801 to 806 of the keydown listener)\<close>

text \<open>\<^verbatim>\<open>historyStack.pop()\<close> is evaluated before \<^verbatim>\<open>loadPage\<close> is entered. With text in the URL
  input the listener leaves the key to the input field.\<close>

definition keydownBackspace :: "platform \<Rightarrow> state \<Rightarrow> state \<times> string option" where
  "keydownBackspace env st =
     (if isAboutOpen st then (closeAbout st, None)
      else if isUrlBarOpen st then ((if urlInput st = [] then toggleUrlBar st else st), None)
      else if isMenuOpen st then (closeMenu st, None)
      else if historyStack st \<noteq> []
      then loadPage_sync env (last (historyStack st)) True (st\<lparr>historyStack := butlast (historyStack st)\<rparr>)
      else (st\<lparr>windowClosed := True\<rparr>, None))"

subsection \<open>The menu action that loads a bookmark (lines 512 to 515)\<close>

definition loadBookmark :: "platform \<Rightarrow> string \<Rightarrow> state \<Rightarrow> state \<times> string option" where
  "loadBookmark env dataUrl st =
     (case loadPage_sync env dataUrl False st of (st', req) \<Rightarrow> (closeMenu st', req))"

subsection \<open>Runs of the application\<close>

text \<open>The calls that change the state, the end of the request in flight and an edit of the
  URL input. A system state is the global state with the URL of the request in flight.\<close>

datatype event =
    CallLoadPage string bool
  | XhrDone xhr_result
  | KeyBackspace
  | LoadBookmark string
  | SubmitUrl
  | EditUrl string
  | ToggleUrlBar
  | OpenMenu
  | CloseMenu
  | OpenAbout
  | CloseAbout
  | ShowWelcome

definition issue :: "state \<times> string option \<Rightarrow> string option \<Rightarrow> state \<times> string option" where
  "issue res inflight = (fst res, (case snd res of None \<Rightarrow> inflight | Some u \<Rightarrow> Some u))"

fun step :: "platform \<Rightarrow> state \<times> string option \<Rightarrow> event \<Rightarrow> state \<times> string option" where
  "step env (st, inflight) (CallLoadPage u isBackAction) = issue (loadPage_sync env u isBackAction st) inflight"
| "step env (st, inflight) (XhrDone r) =
     (case inflight of None \<Rightarrow> (st, None) | Some u \<Rightarrow> (loadPage_complete env u r st, None))"
| "step env (st, inflight) KeyBackspace = issue (keydownBackspace env st) inflight"
| "step env (st, inflight) (LoadBookmark u) = issue (loadBookmark env u st) inflight"
| "step env (st, inflight) SubmitUrl = issue (handleUrlSubmit env st) inflight"
| "step env (st, inflight) (EditUrl s) = (st\<lparr>urlInput := s\<rparr>, inflight)"
| "step env (st, inflight) ToggleUrlBar = (toggleUrlBar st, inflight)"
| "step env (st, inflight) OpenMenu = (openMenu st, inflight)"
| "step env (st, inflight) CloseMenu = (closeMenu st, inflight)"
| "step env (st, inflight) OpenAbout = (openAbout st, inflight)"
| "step env (st, inflight) CloseAbout = (closeAbout st, inflight)"
| "step env (st, inflight) ShowWelcome = (showWelcome st, inflight)"

definition run :: "platform \<Rightarrow> event list \<Rightarrow> state \<times> string option \<Rightarrow> state \<times> string option" where
  "run env evs s = foldl (step env) s evs"

subsection \<open>\<^verbatim>\<open>getSortedLinks\<close>\<close>

text \<open>A link of the reader as \<^verbatim>\<open>getSortedLinks\<close> sees it: the element (a number stands for
  its identity), the top and left of its bounding rectangle, and its \<^verbatim>\<open>data-top\<close> and
  \<^verbatim>\<open>data-left\<close> attributes. A coordinate is a finite double, hence a rational.

  The numbers that are sorted are integers or infinite. An \<open>int\<close> stands for such a number:
  a finite one for itself, \<open>2 ^ 1024\<close> for \<^verbatim>\<open>Infinity\<close> and \<open>- (2 ^ 1024)\<close> for \<^verbatim>\<open>-Infinity\<close>;
  every finite double lies strictly between the two, so the order is that of the numbers.\<close>

record anchor =
  element :: nat
  rectTop :: rat
  rectLeft :: rat
  dataTop :: "string option"
  dataLeft :: "string option"

text \<open>The objects \<^verbatim>\<open>{ el, top, left }\<close> that are sorted.\<close>

record entry =
  el :: anchor
  top :: int
  left :: int

text \<open>\<^verbatim>\<open>Math.round\<close>: the nearest integer, a half rounded up.\<close>

definition mathRound :: "rat \<Rightarrow> int" where
  "mathRound x = \<lfloor>x + 1 / 2\<rfloor>"

definition isDigit :: "char \<Rightarrow> bool" where
  "isDigit c = (48 \<le> (of_char c :: nat) \<and> (of_char c :: nat) \<le> 57)"

definition digitsValue :: "string \<Rightarrow> int" where
  "digitsValue ds = foldl (\<lambda>n c. 10 * n + (int (of_char c) - 48)) 0 ds"

text \<open>The Number value of a natural number: the nearest double, a tie going to the even
  significand of 53 bits, and \<^verbatim>\<open>Infinity\<close> from \<open>2 ^ 1024 - 2 ^ 970\<close> on. With \<open>bitlen n\<close>
  binary digits, \<open>e\<close> of them are more than 53.\<close>

definition numberValue :: "int \<Rightarrow> int" where
  "numberValue n =
     (if n < 2 ^ 53 then n
      else (let e = nat (bitlen n - 53);
                q = n div 2 ^ e;
                r = n mod 2 ^ e;
                q' = (if 2 * r > 2 ^ e \<or> (2 * r = 2 ^ e \<and> odd q) then q + 1 else q)
            in if q' * 2 ^ e \<ge> 2 ^ 1024 then 2 ^ 1024 else q' * 2 ^ e))"

text \<open>\<^verbatim>\<open>parseInt(s, 10)\<close>: leading white space and one sign are skipped and the digits that
  follow are read; \<open>None\<close> is \<^verbatim>\<open>NaN\<close>. The result is the Number value of the integer that
  the digits denote, as the engines compute it (the language lets an implementation
  replace the digits after the twentieth by zeros).\<close>

definition parseInt :: "string \<Rightarrow> int option" where
  "parseInt s =
     (let t = dropWhile isWhiteSpace s;
          neg = (t \<noteq> [] \<and> hd t = CHR ''-'');
          body = (if t \<noteq> [] \<and> (hd t = CHR ''-'' \<or> hd t = CHR ''+'') then tl t else t);
          ds = takeWhile isDigit body
      in if ds = [] then None
         else Some (if neg then - numberValue (digitsValue ds) else numberValue (digitsValue ds)))"

text \<open>Lines 312 and 313: \<^verbatim>\<open>parseInt(l.getAttribute(a) || l.dataset[..] || '0', 10) || 0\<close>. The
  dataset entry is the same attribute.\<close>

definition hint :: "string option \<Rightarrow> int" where
  "hint a =
     (case parseInt (case a of None \<Rightarrow> ''0'' | Some v \<Rightarrow> (if v = [] then ''0'' else v)) of
        None \<Rightarrow> 0
      | Some n \<Rightarrow> n)"

text \<open>The comparator of lines 316 and 320: \<^verbatim>\<open>(a.top - b.top) || (a.left - b.left)\<close>. The
  difference of two doubles is zero, positive or negative as the exact difference is, and
  \<^verbatim>\<open>Infinity - Infinity\<close> is \<^verbatim>\<open>NaN\<close>, which \<^verbatim>\<open>||\<close> passes over and which the sort takes for
  zero: the sign of the result is that of the comparator, and the sort uses no more.\<close>

definition compareEntries :: "entry \<Rightarrow> entry \<Rightarrow> int" where
  "compareEntries a b = (if top a - top b \<noteq> 0 then top a - top b else left a - left b)"

text \<open>\<^verbatim>\<open>Array.prototype.sort\<close> is stable; its algorithm is left to the engine. The model is
  the stable insertion sort: an element goes before the first one that the comparator does
  not put before it.\<close>

fun insertSorted :: "('a \<Rightarrow> 'a \<Rightarrow> int) \<Rightarrow> 'a \<Rightarrow> 'a list \<Rightarrow> 'a list" where
  "insertSorted cmp x [] = [x]"
| "insertSorted cmp x (y # ys) = (if cmp x y \<le> 0 then x # y # ys else y # insertSorted cmp x ys)"

definition arraySort :: "('a \<Rightarrow> 'a \<Rightarrow> int) \<Rightarrow> 'a list \<Rightarrow> 'a list" where
  "arraySort cmp xs = foldr (insertSorted cmp) xs []"

definition measuredEntry :: "anchor \<Rightarrow> entry" where
  "measuredEntry l = \<lparr>el = l, top = mathRound (rectTop l), left = mathRound (rectLeft l)\<rparr>"

definition fallbackEntry :: "anchor \<Rightarrow> entry" where
  "fallbackEntry l = \<lparr>el = l, top = hint (dataTop l), left = hint (dataLeft l)\<rparr>"

definition getSortedLinks :: "anchor list \<Rightarrow> anchor list" where
  "getSortedLinks links =
     (let mapped = map measuredEntry links;
          allZeroTop = list_all (\<lambda>m. top m = 0) mapped
      in if allZeroTop then map el (arraySort compareEntries (map fallbackEntry links))
         else map el (arraySort compareEntries mapped))"

text \<open>The keys that the comparator orders by, as pairs in the lexicographic order.\<close>

definition measuredKey :: "anchor \<Rightarrow> int \<times> int" where
  "measuredKey l = (mathRound (rectTop l), mathRound (rectLeft l))"

definition hintKey :: "anchor \<Rightarrow> int \<times> int" where
  "hintKey l = (hint (dataTop l), hint (dataLeft l))"

text \<open>The order of the comparator on keys: by the first component, ties by the second.\<close>

definition byTopLeft :: "(anchor \<Rightarrow> int \<times> int) \<Rightarrow> anchor \<Rightarrow> anchor \<Rightarrow> bool" where
  "byTopLeft key a b =
     (fst (key a) < fst (key b) \<or> (fst (key a) = fst (key b) \<and> snd (key a) \<le> snd (key b)))"

definition allTopsZero :: "anchor list \<Rightarrow> bool" where
  "allTopsZero links = list_all (\<lambda>l. mathRound (rectTop l) = 0) links"

subsection \<open>Properties of a content tree\<close>

text \<open>A script element, or an attribute named as an event handler, among a node and its
  descendants.\<close>

fun hasScript :: "node \<Rightarrow> bool" where
  "hasScript (Text s) = False"
| "hasScript (Element ns t as cs tc) = (t = ''script'' \<or> list_ex hasScript cs)"

fun hasEventHandler :: "node \<Rightarrow> bool" where
  "hasEventHandler (Text s) = False"
| "hasEventHandler (Element ns t as cs tc) =
     (list_ex (\<lambda>a. isEventHandlerName (fst a)) as \<or> list_ex hasEventHandler cs)"

definition noHandlers :: "attrs \<Rightarrow> bool" where
  "noHandlers as = (\<forall>a \<in> set as. \<not> isEventHandlerName (fst a))"

definition inert :: "node \<Rightarrow> bool" where
  "inert n = (\<not> hasScript n \<and> \<not> hasEventHandler n)"

fun inertView :: "view \<Rightarrow> bool" where
  "inertView (Page ns) = list_all inert ns"
| "inertView v = True"

text \<open>The same, also inside the content of templates: all that the reader receives.\<close>

fun carriesScript :: "node \<Rightarrow> bool" where
  "carriesScript (Text s) = False"
| "carriesScript (Element ns t as cs tc) =
     (t = ''script'' \<or> list_ex carriesScript cs \<or> list_ex carriesScript tc)"

fun carriesEventHandler :: "node \<Rightarrow> bool" where
  "carriesEventHandler (Text s) = False"
| "carriesEventHandler (Element ns t as cs tc) =
     (list_ex (\<lambda>a. isEventHandlerName (fst a)) as \<or> list_ex carriesEventHandler cs
      \<or> list_ex carriesEventHandler tc)"

subsection \<open>Sample data\<close>

text \<open>An excerpt of the platform, as a table: what the URL parser, \<^verbatim>\<open>URLSearchParams\<close>,
  \<^verbatim>\<open>decodeURIComponent\<close>, \<^verbatim>\<open>xhr.open\<close> and the HTML parser do on the strings used below. A
  string outside a table throws (for the parsers of URLs, \<^verbatim>\<open>decodeURIComponent\<close> and
  \<^verbatim>\<open>xhr.open\<close>), has no such parameter, or parses to the empty document.\<close>

definition mkUrl :: "string \<Rightarrow> string \<Rightarrow> string \<Rightarrow> string \<Rightarrow> string \<Rightarrow> url" where
  "mkUrl pr h pa q hr = \<lparr>protocol = pr, hostname = h, pathname = pa, search = q, href = hr\<rparr>"

definition siteA :: string where
  "siteA = ''https://example.com/''"

definition siteB :: string where
  "siteB = ''https://example.org/news''"

text \<open>A result link of the search engine to \<open>siteA\<close>, a result link to that result link,
  and a result link to a script URL; then the query string of each.\<close>

definition wrapper1 :: string where
  "wrapper1 = ''https://duckduckgo.com/l/?uddg=https%3A%2F%2Fexample.com%2F''"

definition wrapper0 :: string where
  "wrapper0 = ''https://duckduckgo.com/l/?uddg=https%253A%252F%252Fduckduckgo.com%252Fl%252F%253Fuddg%253Dhttps%25253A%25252F%25252Fexample.com%25252F''"

definition wrapperJs :: string where
  "wrapperJs = ''https://duckduckgo.com/l/?uddg=javascript%3Aalert(1)''"

text \<open>A link with the path and the parameter of a result link on another host, and a
  result link whose target has an escaped ampersand in its query.\<close>

definition wrapperEvil :: string where
  "wrapperEvil = ''https://evil-duckduckgo.com.test/l/?uddg=https%3A%2F%2Fexample.com%2F''"

definition wrapperAmp :: string where
  "wrapperAmp = ''https://duckduckgo.com/l/?uddg=https%3A%2F%2Fexample.com%2F%3Fq%3Da%2526b''"

definition queryAmp :: string where
  "queryAmp = ''?uddg=https%3A%2F%2Fexample.com%2F%3Fq%3Da%2526b''"

definition query1 :: string where
  "query1 = ''?uddg=https%3A%2F%2Fexample.com%2F''"

definition query0 :: string where
  "query0 = ''?uddg=https%253A%252F%252Fduckduckgo.com%252Fl%252F%253Fuddg%253Dhttps%25253A%25252F%25252Fexample.com%25252F''"

definition queryJs :: string where
  "queryJs = ''?uddg=javascript%3Aalert(1)''"

text \<open>The value of the parameter \<^verbatim>\<open>uddg\<close> of \<open>query0\<close>, which \<^verbatim>\<open>decodeURIComponent\<close> turns into
  \<open>wrapper1\<close>.\<close>

definition encodedWrapper1 :: string where
  "encodedWrapper1 = ''https%3A%2F%2Fduckduckgo.com%2Fl%2F%3Fuddg%3Dhttps%253A%252F%252Fexample.com%252F''"

definition tabbedInput :: string where
  "tabbedInput = ''a.b'' @ [char_of (9 :: nat)] @ ''c''"

definition sampleUrls :: "(string \<times> url) list" where
  "sampleUrls =
     [(''https://example.com/'', mkUrl ''https:'' ''example.com'' ''/'' [] ''https://example.com/''),
      (''https://example.org/news'', mkUrl ''https:'' ''example.org'' ''/news'' [] ''https://example.org/news''),
      (''https://example.com'', mkUrl ''https:'' ''example.com'' ''/'' [] ''https://example.com/''),
      (''https://'' @ tabbedInput, mkUrl ''https:'' ''a.bc'' ''/'' [] ''https://a.bc/''),
      (''https://httpbin.org'', mkUrl ''https:'' ''httpbin.org'' ''/'' [] ''https://httpbin.org/''),
      (wrapper1, mkUrl ''https:'' ''duckduckgo.com'' ''/l/'' query1 wrapper1),
      (wrapper0, mkUrl ''https:'' ''duckduckgo.com'' ''/l/'' query0 wrapper0),
      (wrapperJs, mkUrl ''https:'' ''duckduckgo.com'' ''/l/'' queryJs wrapperJs),
      (wrapperEvil, mkUrl ''https:'' ''evil-duckduckgo.com.test'' ''/l/'' query1 wrapperEvil),
      (wrapperAmp, mkUrl ''https:'' ''duckduckgo.com'' ''/l/'' queryAmp wrapperAmp),
      (''https://example.com/?q=a%26b'', mkUrl ''https:'' ''example.com'' ''/'' ''?q=a%26b'' ''https://example.com/?q=a%26b''),
      (''https://example.com/?q=a&b'', mkUrl ''https:'' ''example.com'' ''/'' ''?q=a&b'' ''https://example.com/?q=a&b''),
      (''javascript:alert(1)'', mkUrl ''javascript:'' [] ''alert(1)'' [] ''javascript:alert(1)'')]"

definition sampleResolved :: "((string \<times> string) \<times> url) list" where
  "sampleResolved =
     [((''/about'', ''https://example.com/''),
         mkUrl ''https:'' ''example.com'' ''/about'' [] ''https://example.com/about''),
      (([], ''https://example.com/''), mkUrl ''https:'' ''example.com'' ''/'' [] ''https://example.com/''),
      ((''javascript:alert(1)'', ''https://example.com/''),
         mkUrl ''javascript:'' [] ''alert(1)'' [] ''javascript:alert(1)'')]"

definition sampleParams :: "((string \<times> string) \<times> string) list" where
  "sampleParams =
     [((query1, ''uddg''), ''https://example.com/''),
      ((query0, ''uddg''), encodedWrapper1),
      ((queryJs, ''uddg''), ''javascript:alert(1)''),
      ((queryAmp, ''uddg''), ''https://example.com/?q=a%26b'')]"

definition sampleDecoded :: "(string \<times> string) list" where
  "sampleDecoded =
     [(''https://example.com/'', ''https://example.com/''),
      (encodedWrapper1, wrapper1),
      (''javascript:alert(1)'', ''javascript:alert(1)''),
      (''https://example.com/?q=a%26b'', ''https://example.com/?q=a&b'')]"

definition sampleOpenable :: "string list" where
  "sampleOpenable =
     [''https://example.com/'', ''https://example.org/news'', ''https://example.com'', wrapper1,
      ''https://example.com/?q=a&b'']"

text \<open>The sample pages have no doctype: their documents are in quirks mode.\<close>

definition emptyDocument :: document where
  "emptyDocument =
     \<lparr>documentElement = HtmlElement ''html'' [] [HtmlElement ''head'' [] [], HtmlElement ''body'' [] []],
      quirksMode = True\<rparr>"

definition samplePage :: string where
  "samplePage =
     ''<div id=content onclick=a()><p style=color:red>Hi <a href=/about onmouseover=b() target=_blank>About</a>''
     @ ''<script>evil()</script></p><section><script>deep()</script><a href=javascript:alert(1)>x</a>''
     @ ''<a href>self</a></section></div>''"

definition sampleDocument :: document where
  "sampleDocument =
     \<lparr>documentElement =
        HtmlElement ''html'' []
          [HtmlElement ''head'' [] [],
           HtmlElement ''body'' []
             [HtmlElement ''div'' [(''id'', ''content''), (''onclick'', ''a()'')]
                [HtmlElement ''p'' [(''style'', ''color:red'')]
                   [Text ''Hi '',
                    HtmlElement ''a'' [(''href'', ''/about''), (''onmouseover'', ''b()''), (''target'', ''_blank'')]
                      [Text ''About''],
                    HtmlElement ''script'' [] [Text ''evil()'']],
                 HtmlElement ''section'' []
                   [HtmlElement ''script'' [] [Text ''deep()''],
                    HtmlElement ''a'' [(''href'', ''javascript:alert(1)'')] [Text ''x''],
                    HtmlElement ''a'' [(''href'', [])] [Text ''self'']]]]],
      quirksMode = True\<rparr>"

definition plainPage :: string where
  "plainPage = ''<p>News</p>''"

definition plainDocument :: document where
  "plainDocument =
     \<lparr>documentElement =
        HtmlElement ''html'' []
          [HtmlElement ''head'' [] [], HtmlElement ''body'' [] [HtmlElement ''p'' [] [Text ''News'']]],
      quirksMode = True\<rparr>"

text \<open>A page with a template, whose content the parser puts into the content fragment, and
  a page with a link inside a \<^verbatim>\<open>math\<close> element, which the parser makes a MathML element.\<close>

definition templatePage :: string where
  "templatePage = ''<div id=content><template><script>evil()</script><a onclick=x()>t</a></template><p>Text</p></div>''"

definition templateDocument :: document where
  "templateDocument =
     \<lparr>documentElement =
        HtmlElement ''html'' []
          [HtmlElement ''head'' [] [],
           HtmlElement ''body'' []
             [HtmlElement ''div'' [(''id'', ''content'')]
                [Element HTML ''template'' [] []
                   [HtmlElement ''script'' [] [Text ''evil()''],
                    HtmlElement ''a'' [(''onclick'', ''x()'')] [Text ''t'']],
                 HtmlElement ''p'' [] [Text ''Text'']]]],
      quirksMode = True\<rparr>"

definition templateContent :: "node list" where
  "templateContent =
     [Element HTML ''template'' [] []
        [HtmlElement ''script'' [] [Text ''evil()''], HtmlElement ''a'' [(''onclick'', ''x()'')] [Text ''t'']],
      HtmlElement ''p'' [] [Text ''Text'']]"

definition mathPage :: string where
  "mathPage = ''<div id=content><math><a href=javascript:alert(1) target=_blank>m</a></math></div>''"

definition mathDocument :: document where
  "mathDocument =
     \<lparr>documentElement =
        HtmlElement ''html'' []
          [HtmlElement ''head'' [] [],
           HtmlElement ''body'' []
             [HtmlElement ''div'' [(''id'', ''content'')]
                [Element MathML ''math'' []
                   [Element MathML ''a'' [(''href'', ''javascript:alert(1)''), (''target'', ''_blank'')]
                      [Text ''m''] []] []]]],
      quirksMode = True\<rparr>"

definition samplePages :: "(string \<times> document) list" where
  "samplePages =
     [(samplePage, sampleDocument), (plainPage, plainDocument), (templatePage, templateDocument),
      (mathPage, mathDocument)]"

definition samplePlatform :: platform where
  "samplePlatform =
     \<lparr>newURL = map_of sampleUrls,
      newURLWithBase = (\<lambda>h b. map_of sampleResolved (h, b)),
      searchParamsGet = (\<lambda>q k. map_of sampleParams (q, k)),
      decodeURIComponent = map_of sampleDecoded,
      parseFromString = (\<lambda>s. case map_of samplePages s of None \<Rightarrow> emptyDocument | Some d \<Rightarrow> d),
      xhrOpen = (\<lambda>u. u \<in> set sampleOpenable)\<rparr>"

text \<open>The nodes that the scraper publishes for the sample page loaded from \<open>siteA\<close>.\<close>

definition sampleContent :: "node list" where
  "sampleContent =
     [HtmlElement ''p'' []
        [Text ''Hi '',
         HtmlElement ''a''
           [(''href'', ''https://example.com/about''), (''class'', ''kai-link''), (''tabindex'', ''0''),
            (''rel'', ''noreferrer'')]
           [Text ''About'']],
      HtmlElement ''section'' []
        [HtmlElement ''a'' [(''class'', ''kai-link''), (''tabindex'', ''0''), (''rel'', ''noreferrer'')] [Text ''x''],
         HtmlElement ''a'' [(''href'', []), (''class'', ''kai-link''), (''tabindex'', ''0''), (''rel'', ''noreferrer'')]
           [Text ''self'']]]"

definition htmlOk :: xhr_result where
  "htmlOk = Loaded 200 (Some ''text/html; charset=utf-8'') samplePage"


definition fullHistory :: "string list" where
  "fullHistory = map (\<lambda>n. siteA @ replicate n (CHR ''x'')) [0..<50]"

definition fullState :: state where
  "fullState = initialState\<lparr>currUrl := siteB, historyStack := fullHistory\<rparr>"

text \<open>The state after the sample page was loaded from \<open>siteA\<close>, and that state with a
  request to \<open>siteB\<close> in flight.\<close>

definition visitedA :: state where
  "visitedA = loadPage samplePlatform siteA False htmlOk initialState"

definition loadingB :: state where
  "loadingB = fst (loadPage_sync samplePlatform siteB False visitedA)"

definition mkAnchor :: "nat \<Rightarrow> rat \<Rightarrow> rat \<Rightarrow> string option \<Rightarrow> string option \<Rightarrow> anchor" where
  "mkAnchor i t l dt dl = \<lparr>element = i, rectTop = t, rectLeft = l, dataTop = dt, dataLeft = dl\<rparr>"

text \<open>Two links on one line, with hints; four links on two lines; two links with hints, one of them a quarter of a pixel
  below the top; two links without layout, with hints out of order; two links without
  layout whose hints differ by one beyond \<open>2 ^ 53\<close>.\<close>

definition lineLinks :: "anchor list" where
  "lineLinks = [mkAnchor 3 5 50 (Some ''1'') None, mkAnchor 4 5 10 (Some ''2'') None]"

definition pageLinks :: "anchor list" where
  "pageLinks =
     [mkAnchor 5 (7 / 2) 50 None None, mkAnchor 6 (- 5) 10 None None, mkAnchor 7 4 20 None None,
      mkAnchor 8 4 20 None None]"

definition hintedLinks :: "anchor list" where
  "hintedLinks = [mkAnchor 9 0 0 (Some ''30'') (Some ''2''), mkAnchor 10 (1 / 4) 0 (Some '' 10px'') None]"

definition noLayoutLinks :: "anchor list" where
  "noLayoutLinks = [mkAnchor 11 0 0 (Some ''30'') None, mkAnchor 12 0 0 (Some ''10'') None]"

definition bigHintLinks :: "anchor list" where
  "bigHintLinks =
     [mkAnchor 13 0 0 (Some ''9007199254740993'') None, mkAnchor 14 0 0 (Some ''9007199254740992'') None]"

section \<open>The scraper removes scripts and event handlers\<close>

lemma foldl_removeEventHandlers:
  "foldl (\<lambda>cur (name, v). if isEventHandlerName name then removeAttribute name cur else cur) cur xs
     = filter (\<lambda>a. \<not> (isEventHandlerName (fst a) \<and> fst a \<in> fst ` set xs)) cur"
proof (induction xs arbitrary: cur)
  case Nil
  show ?case by simp
next
  case (Cons x xs)
  obtain name v where x: "x = (name, v)" by (cases x)
  show ?case
  proof (cases "isEventHandlerName name")
    case True
    have "removeAttribute name cur = filter (\<lambda>a. fst a \<noteq> name) cur"
      by (simp add: removeAttribute_def AList.delete_eq case_prod_unfold eq_commute)
    with True x Cons.IH [of "removeAttribute name cur"] show ?thesis
      by (auto intro!: filter_cong)
  next
    case False
    with x Cons.IH [of cur] show ?thesis
      by (auto intro!: filter_cong)
  qed
qed

lemma removeEventHandlers_filter:
  "removeEventHandlers as = filter (\<lambda>a. \<not> isEventHandlerName (fst a)) as"
  unfolding removeEventHandlers_def foldl_removeEventHandlers
  by (rule filter_cong) auto

lemma noHandlers_removeEventHandlers: "noHandlers (removeEventHandlers as)"
  by (simp add: noHandlers_def removeEventHandlers_filter)

lemma noHandlers_setAttribute:
  "noHandlers as \<Longrightarrow> \<not> isEventHandlerName name \<Longrightarrow> noHandlers (setAttribute name v as)"
  unfolding noHandlers_def setAttribute_def
  by (induction as) auto

lemma noHandlers_removeAttribute: "noHandlers as \<Longrightarrow> noHandlers (removeAttribute name as)"
  unfolding noHandlers_def removeAttribute_def
  by (auto simp: AList.delete_eq)

lemma noHandlers_classListAdd: "noHandlers as \<Longrightarrow> noHandlers (classListAdd ''kai-link'' as)"
  by (simp add: classListAdd_def Let_def noHandlers_setAttribute)

lemma noHandlers_rewriteHref: "noHandlers as \<Longrightarrow> noHandlers (rewriteHref env u as)"
  by (auto simp: rewriteHref_def noHandlers_setAttribute noHandlers_removeAttribute
      split: option.splits)

lemma noHandlers_processAttributes: "noHandlers (processAttributes env u ns t as)"
  by (simp add: processAttributes_def Let_def noHandlers_removeEventHandlers noHandlers_setAttribute
      noHandlers_removeAttribute noHandlers_classListAdd noHandlers_rewriteHref)

lemma hasEventHandler_Element:
  "hasEventHandler (Element ns t as cs tc) = (\<not> noHandlers as \<or> (\<exists>c \<in> set cs. hasEventHandler c))"
  by (auto simp: noHandlers_def list_ex_iff)

lemma processElement_no_handler: "\<not> hasEventHandler (processElement env u n)"
  by (induction n)
    (simp_all add: hasEventHandler_Element noHandlers_processAttributes del: hasEventHandler.simps(2))

lemma normalizeAnchors_no_handler: "\<not> hasEventHandler n \<Longrightarrow> \<not> hasEventHandler (normalizeAnchors n)"
  by (induction n)
    (simp_all add: hasEventHandler_Element noHandlers_setAttribute noHandlers_classListAdd
      del: hasEventHandler.simps(2))

lemma hasScript_processElement: "hasScript (processElement env u n) = hasScript n"
  by (induction n) (auto simp: list_ex_iff)

lemma hasScript_normalizeAnchors: "hasScript (normalizeAnchors n) = hasScript n"
  by (induction n) (auto simp: list_ex_iff)

lemma removeJunk_no_script: "\<not> isJunk n \<Longrightarrow> \<not> hasScript (removeJunk n)"
  by (induction n) (auto simp: list_ex_iff junkTags_def)

lemma removeJunk_children_no_script:
  "c \<in> set (childNodes (removeJunk n)) \<Longrightarrow> \<not> hasScript c"
  by (cases n) (auto simp: removeJunk_no_script)

lemma scrape_inert: "scrape env u htmlString = Some ns \<Longrightarrow> list_all inert ns"
  by (auto simp: scrape_def list_all_iff inert_def hasScript_normalizeAnchors hasScript_processElement
      removeJunk_children_no_script normalizeAnchors_no_handler processElement_no_handler
      split: option.splits)

section \<open>The history stack\<close>

lemmas state_ops =
  showError_def showNotification_def showWelcome_def clearLinkSelection_def toggleUrlBar_def
  openMenu_def closeMenu_def openAbout_def closeAbout_def loadFailed_def Let_def

lemma historyStack_pushHistory:
  "historyStack (pushHistory u b st) =
     (if \<not> b \<and> currUrl st \<noteq> [] \<and> currUrl st \<noteq> u
      then (if length (historyStack st) < MAX_HISTORY then historyStack st @ [currUrl st]
            else tl (historyStack st @ [currUrl st]))
      else historyStack st)"
  by (auto simp: pushHistory_def Let_def)

lemma length_pushHistory:
  "length (historyStack st) \<le> MAX_HISTORY \<Longrightarrow> length (historyStack (pushHistory u b st)) \<le> MAX_HISTORY"
  by (auto simp: historyStack_pushHistory)

lemma historyStack_loadPage_complete [simp]:
  "historyStack (loadPage_complete env u r st) = historyStack st"
  by (auto simp: loadPage_complete_def state_ops split: xhr_result.splits option.splits)

lemma loadPage_sync_cases:
  "loadPage_sync env u b st =
     (if isLoading st then (st, None)
      else if u = [] then (showError ''Invalid URL'' st, None)
      else if xhrOpen env (unwrapRedirector env u)
      then (pushHistory u b (st\<lparr>isLoading := True\<rparr>), Some (unwrapRedirector env u))
      else (loadFailed (pushHistory u b (st\<lparr>isLoading := True\<rparr>)), None))"
  by (simp add: loadPage_sync_def Let_def)

lemma historyStack_loadPage_sync:
  "historyStack (fst (loadPage_sync env u b st)) =
     (if \<not> isLoading st \<and> u \<noteq> [] then historyStack (pushHistory u b (st\<lparr>isLoading := True\<rparr>))
      else historyStack st)"
  by (simp add: loadPage_sync_cases loadFailed_def showError_def)

lemma length_loadPage_sync:
  "length (historyStack st) \<le> MAX_HISTORY \<Longrightarrow>
   length (historyStack (fst (loadPage_sync env u b st))) \<le> MAX_HISTORY"
  using length_pushHistory [of "st\<lparr>isLoading := True\<rparr>" u b]
  by (simp add: historyStack_loadPage_sync)

lemma length_keydownBackspace:
  "length (historyStack st) \<le> MAX_HISTORY \<Longrightarrow>
   length (historyStack (fst (keydownBackspace env st))) \<le> MAX_HISTORY"
  using length_loadPage_sync [of "st\<lparr>historyStack := butlast (historyStack st)\<rparr>" env "last (historyStack st)" True]
  by (auto simp: keydownBackspace_def state_ops Let_def)

lemma length_handleUrlSubmit:
  "length (historyStack st) \<le> MAX_HISTORY \<Longrightarrow>
   length (historyStack (fst (handleUrlSubmit env st))) \<le> MAX_HISTORY"
  using length_loadPage_sync [of "toggleUrlBar st" env _ False]
  by (auto simp: handleUrlSubmit_def state_ops Let_def split: sum.splits)

lemma length_loadBookmark:
  "length (historyStack st) \<le> MAX_HISTORY \<Longrightarrow>
   length (historyStack (fst (loadBookmark env u st))) \<le> MAX_HISTORY"
  using length_loadPage_sync [of st env u False]
  by (auto simp: loadBookmark_def state_ops split: prod.splits)

lemma step_history_bound:
  "length (historyStack (fst s)) \<le> MAX_HISTORY \<Longrightarrow>
   length (historyStack (fst (step env s e))) \<le> MAX_HISTORY"
  by (cases s; cases e)
    (auto simp: issue_def length_loadPage_sync length_keydownBackspace length_handleUrlSubmit
      length_loadBookmark state_ops split: option.splits)

lemma run_history_bound:
  "length (historyStack (fst s)) \<le> MAX_HISTORY \<Longrightarrow>
   length (historyStack (fst (run env evs s))) \<le> MAX_HISTORY"
  unfolding run_def
  by (induction evs arbitrary: s) (simp_all add: step_history_bound)

text \<open>In a run from the initial state a request is in flight exactly while the loader is
  busy, so that one slot for the request suffices.\<close>

lemma step_inflight:
  "(snd s = None) = (\<not> isLoading (fst s)) \<Longrightarrow>
   (snd (step env s e) = None) = (\<not> isLoading (fst (step env s e)))"
  by (cases s; cases e)
    (auto simp: issue_def loadPage_sync_cases loadPage_complete_def keydownBackspace_def
      handleUrlSubmit_def loadBookmark_def pushHistory_def state_ops
      split: option.splits xhr_result.splits sum.splits prod.splits)

lemma run_inflight:
  "(snd s = None) = (\<not> isLoading (fst s)) \<Longrightarrow>
   (snd (run env evs s) = None) = (\<not> isLoading (fst (run env evs s)))"
  unfolding run_def
  by (induction evs arbitrary: s) (simp_all add: step_inflight)

lemma reader_step_inert:
  "inertView (reader (fst s)) \<Longrightarrow> inertView (reader (fst (step env s e)))"
  by (cases s; cases e)
    (auto simp: issue_def loadPage_sync_cases loadPage_complete_def keydownBackspace_def
      handleUrlSubmit_def loadBookmark_def pushHistory_def state_ops scrape_inert
      split: option.splits xhr_result.splits sum.splits prod.splits)

lemma reader_run_inert:
  "inertView (reader (fst s)) \<Longrightarrow> inertView (reader (fst (run env evs s)))"
  unfolding run_def
  by (induction evs arbitrary: s) (simp_all add: reader_step_inert)

text \<open>Among the children of the published nodes, and their descendants, there is no script
  element and no attribute named as an event handler; and after any run of the application
  from its initial state the reader shows such nodes, or one of the application's own
  views. The content of templates is not covered.\<close>

lemma published_tree_inert:
  "(scrape env u htmlString = Some ns \<longrightarrow> list_all inert ns)
   \<and> inertView (reader (fst (run env evs (initialState, None))))"
proof -
  have "inertView (reader (fst (initialState, None :: string option)))"
    by (simp add: initialState_def)
  from reader_run_inert [OF this] scrape_inert show ?thesis
    by blast
qed

lemma sample_page_cleaned:
  "hasScript (documentElement sampleDocument) \<and> hasEventHandler (documentElement sampleDocument)
   \<and> scrape samplePlatform siteA samplePage = Some sampleContent
   \<and> list_all inert sampleContent"
  by code_simp

text \<open>
  C1. The markup \<open>templatePage\<close> has a script element and a link with an \<^verbatim>\<open>onclick\<close> attribute
  inside a template. Lines 130 to 144 do not reach the content of the template and line
  179 copies it: the nodes that the scraper publishes, and that the reader shows after the
  page is loaded, carry the script element and the attribute.
\<close>

theorem template_content_published:
  "scrape samplePlatform siteA templatePage = Some templateContent
   \<and> list_ex carriesScript templateContent
   \<and> list_ex carriesEventHandler templateContent
   \<and> reader (fst (run samplePlatform
        [CallLoadPage siteA False, XhrDone (Loaded 200 (Some ''text/html'') templatePage)]
        (initialState, None))) = Page templateContent"
  by code_simp

text \<open>
  C6. After any run of the application from its initial state the history stack holds at
  most 50 entries. \<^verbatim>\<open>loadPage\<close> changes the stack only when it is not busy, the URL is not
  empty, the call is not a back action, and the current location is neither empty nor the
  URL: then the current location is appended, and when that makes 51 entries the first
  (oldest) one is dropped, so that the entry just pushed stays last. The rest of the load
  does not touch the stack.
\<close>

theorem history_bounded:
  "length (historyStack (fst (run env evs (initialState, None)))) \<le> 50
   \<and> historyStack (fst (loadPage_sync env u b st)) =
       (if \<not> isLoading st \<and> u \<noteq> [] \<and> \<not> b \<and> currUrl st \<noteq> [] \<and> currUrl st \<noteq> u
        then (if length (historyStack st) < 50 then historyStack st @ [currUrl st]
              else tl (historyStack st @ [currUrl st]))
        else historyStack st)
   \<and> (length (historyStack st) = 50 \<longrightarrow> tl (historyStack st @ [currUrl st]) = tl (historyStack st) @ [currUrl st])
   \<and> historyStack (loadPage_complete env u' r st) = historyStack st"
proof -
  have "length (historyStack (fst (initialState, None :: string option))) \<le> MAX_HISTORY"
    by (simp add: initialState_def)
  from run_history_bound [OF this, of env evs]
  have bound: "length (historyStack (fst (run env evs (initialState, None)))) \<le> 50"
    by (simp add: MAX_HISTORY_def)
  have push: "historyStack (fst (loadPage_sync env u b st)) =
       (if \<not> isLoading st \<and> u \<noteq> [] \<and> \<not> b \<and> currUrl st \<noteq> [] \<and> currUrl st \<noteq> u
        then (if length (historyStack st) < 50 then historyStack st @ [currUrl st]
              else tl (historyStack st @ [currUrl st]))
        else historyStack st)"
    by (simp add: historyStack_loadPage_sync historyStack_pushHistory MAX_HISTORY_def)
  have front: "length (historyStack st) = 50 \<longrightarrow>
      tl (historyStack st @ [currUrl st]) = tl (historyStack st) @ [currUrl st]"
    by (cases "historyStack st") simp_all
  from bound push front show ?thesis
    by simp
qed

theorem history_bounded_witness:
  "length (historyStack fullState) = 50
   \<and> historyStack (fst (loadPage_sync samplePlatform siteA False fullState)) = tl fullHistory @ [siteB]
   \<and> length (historyStack (fst (loadPage_sync samplePlatform siteA False fullState))) = 50
   \<and> historyStack (fst (loadPage_sync samplePlatform siteA True fullState)) = fullHistory"
proof -
  have h: "historyStack fullState = fullHistory" "currUrl fullState = siteB" "\<not> isLoading fullState"
    by (simp_all add: fullState_def initialState_def)
  have l: "length fullHistory = 50"
    by (simp add: fullHistory_def)
  have ne: "siteB \<noteq> []" "siteB \<noteq> siteA" "siteA \<noteq> []"
    by (simp_all add: siteA_def siteB_def)
  from history_bounded [of samplePlatform "[]" siteA False fullState siteA Timeout]
    history_bounded [of samplePlatform "[]" siteA True fullState siteA Timeout]
  show ?thesis
    using h l ne by simp
qed

text \<open>
  C10. While a load is in flight and no overlay is open, Backspace with a non-empty history
  stack removes the last entry and does nothing else: no request is sent, the one in
  flight stays, and the location and the content of the reader are as before.
\<close>

theorem backspace_while_loading:
  assumes "isLoading st" and "\<not> isMenuOpen st" and "\<not> isUrlBarOpen st" and "\<not> isAboutOpen st"
    and "historyStack st \<noteq> []"
  shows "keydownBackspace env st = (st\<lparr>historyStack := butlast (historyStack st)\<rparr>, None)
    \<and> historyStack (fst (keydownBackspace env st)) = butlast (historyStack st)
    \<and> currUrl (fst (keydownBackspace env st)) = currUrl st
    \<and> reader (fst (keydownBackspace env st)) = reader st
    \<and> step env (st, inflight) KeyBackspace = (st\<lparr>historyStack := butlast (historyStack st)\<rparr>, inflight)"
  using assms by (simp add: keydownBackspace_def loadPage_sync_cases issue_def)

theorem backspace_while_loading_witness:
  "isLoading loadingB \<and> historyStack loadingB = [siteA]
   \<and> keydownBackspace samplePlatform loadingB = (loadingB\<lparr>historyStack := []\<rparr>, None)
   \<and> currUrl (fst (keydownBackspace samplePlatform loadingB)) = siteA"
proof -
  have h: "isLoading loadingB" "\<not> isMenuOpen loadingB" "\<not> isUrlBarOpen loadingB"
    "\<not> isAboutOpen loadingB" "historyStack loadingB = [siteA]" "currUrl loadingB = siteA"
    by code_simp+
  then have ne: "historyStack loadingB \<noteq> []"
    by simp
  from backspace_while_loading [OF h(1-4) ne, of samplePlatform None] h
  show ?thesis by simp
qed

section \<open>Loads that fail, and the way back\<close>

lemma loadPage_complete_failed:
  "r = NetworkError \<or> r = Timeout
     \<or> (r = Loaded status ct htmlString \<and> \<not> (200 \<le> status \<and> status < 300))
   \<Longrightarrow> loadPage_complete env u r st = loadFailed st"
  by (auto simp: loadPage_complete_def)

lemma loadPage_complete_unsupported:
  "200 \<le> status \<Longrightarrow> status < 300 \<Longrightarrow> unsupportedContentType ct
   \<Longrightarrow> loadPage_complete env u (Loaded status ct htmlString) st
       = (showNotification ''This content type cannot be rendered in-app.'' st)\<lparr>isLoading := False\<rparr>"
  by (simp add: loadPage_complete_def)

lemma loadPage_started:
  "\<not> isLoading st \<Longrightarrow> u \<noteq> [] \<Longrightarrow> xhrOpen env (unwrapRedirector env u) \<Longrightarrow>
   loadPage env u b r st
     = loadPage_complete env (unwrapRedirector env u) r (pushHistory u b (st\<lparr>isLoading := True\<rparr>))"
  by (simp add: loadPage_def loadPage_sync_cases)

lemma loadPage_not_opened:
  "\<not> isLoading st \<Longrightarrow> u \<noteq> [] \<Longrightarrow> \<not> xhrOpen env (unwrapRedirector env u) \<Longrightarrow>
   loadPage env u b r st = loadFailed (pushHistory u b (st\<lparr>isLoading := True\<rparr>))"
  by (simp add: loadPage_def loadPage_sync_cases)

lemma pushHistory_fields:
  "currUrl (pushHistory u b st) = currUrl st"
  "reader (pushHistory u b st) = reader st"
  "notifications (pushHistory u b st) = notifications st"
  "isLoading (pushHistory u b st) = isLoading st"
  "isMenuOpen (pushHistory u b st) = isMenuOpen st"
  "isUrlBarOpen (pushHistory u b st) = isUrlBarOpen st"
  "isAboutOpen (pushHistory u b st) = isAboutOpen st"
  by (simp_all add: pushHistory_def Let_def)


text \<open>
  C2. A load that is started (the loader is not busy, the URL is not empty) and fails, by
  \<^verbatim>\<open>xhr.open\<close>, a transport error, a timeout or a status outside 200 to 299, or is given up
  for its content type, leaves the location as it was and the loader idle. The history
  stack is as the push of lines 64 to 70 left it before the request: unchanged for a back
  action and when the location was empty or the target itself, and otherwise with the
  location that is still current appended (the oldest entry dropped at 51); the target is
  not pushed. A failed load shows the error view and no notification; an unsupported
  content type shows the notification and leaves the reader as it was.
\<close>

theorem failed_load_keeps_location:
  assumes "\<not> isLoading st" and "u \<noteq> []"
    and "\<not> xhrOpen env (unwrapRedirector env u) \<or> r = NetworkError \<or> r = Timeout
         \<or> (r = Loaded status ct htmlString
             \<and> (\<not> (200 \<le> status \<and> status < 300) \<or> unsupportedContentType ct))"
  shows "currUrl (loadPage env u b r st) = currUrl st
    \<and> historyStack (loadPage env u b r st) =
        (if \<not> b \<and> currUrl st \<noteq> [] \<and> currUrl st \<noteq> u
         then (if length (historyStack st) < 50 then historyStack st @ [currUrl st]
               else tl (historyStack st @ [currUrl st]))
         else historyStack st)
    \<and> \<not> isLoading (loadPage env u b r st)
    \<and> (if xhrOpen env (unwrapRedirector env u)
           \<and> r = Loaded status ct htmlString \<and> 200 \<le> status \<and> status < 300
        then reader (loadPage env u b r st) = reader st
           \<and> notifications (loadPage env u b r st)
               = notifications st @ [''This content type cannot be rendered in-app.'']
        else reader (loadPage env u b r st)
               = ErrorView ''Failed to load page. Site may be blocking access or you may be offline.''
           \<and> notifications (loadPage env u b r st) = notifications st)"
proof -
  let ?st1 = "pushHistory u b (st\<lparr>isLoading := True\<rparr>)"
  let ?shown = "xhrOpen env (unwrapRedirector env u)
      \<and> r = Loaded status ct htmlString \<and> 200 \<le> status \<and> status < 300"
  have h1: "historyStack ?st1 =
        (if \<not> b \<and> currUrl st \<noteq> [] \<and> currUrl st \<noteq> u
         then (if length (historyStack st) < 50 then historyStack st @ [currUrl st]
               else tl (historyStack st @ [currUrl st]))
         else historyStack st)"
    by (simp add: historyStack_pushHistory MAX_HISTORY_def)
  show ?thesis
  proof (cases ?shown)
    case True
    with assms(3) have un: "unsupportedContentType ct"
      by auto
    from True have start: "loadPage env u b r st = loadPage_complete env (unwrapRedirector env u) r ?st1"
      using loadPage_started [OF assms(1,2)] by simp
    from True have "loadPage env u b r st
        = (showNotification ''This content type cannot be rendered in-app.'' ?st1)\<lparr>isLoading := False\<rparr>"
      unfolding start using loadPage_complete_unsupported [OF _ _ un] by simp
    then have f: "currUrl (loadPage env u b r st) = currUrl st"
      "historyStack (loadPage env u b r st) = historyStack ?st1"
      "\<not> isLoading (loadPage env u b r st)"
      "reader (loadPage env u b r st) = reader st"
      "notifications (loadPage env u b r st)
         = notifications st @ [''This content type cannot be rendered in-app.'']"
      by (simp_all add: showNotification_def pushHistory_fields)
    show ?thesis
      unfolding if_P [OF True] by (intro conjI f(1) f(2) [unfolded h1] f(3-5))
  next
    case False
    have "loadPage env u b r st = loadFailed ?st1"
    proof (cases "xhrOpen env (unwrapRedirector env u)")
      case opened: True
      with False assms(3) have "r = NetworkError \<or> r = Timeout
         \<or> (r = Loaded status ct htmlString \<and> \<not> (200 \<le> status \<and> status < 300))"
        by auto
      then have "loadPage_complete env (unwrapRedirector env u) r ?st1 = loadFailed ?st1"
        by (rule loadPage_complete_failed)
      with loadPage_started [OF assms(1,2) opened] show ?thesis
        by simp
    next
      case False
      with loadPage_not_opened [OF assms(1,2)] show ?thesis
        by simp
    qed
    then have f: "currUrl (loadPage env u b r st) = currUrl st"
      "historyStack (loadPage env u b r st) = historyStack ?st1"
      "\<not> isLoading (loadPage env u b r st)"
      "reader (loadPage env u b r st)
         = ErrorView ''Failed to load page. Site may be blocking access or you may be offline.''"
      "notifications (loadPage env u b r st) = notifications st"
      by (simp_all add: loadFailed_def showError_def pushHistory_fields)
    show ?thesis
      unfolding if_not_P [OF False] by (intro conjI f(1) f(2) [unfolded h1] f(3-5))
  qed
qed

theorem failed_load_keeps_location_witness:
  "currUrl visitedA = siteA \<and> historyStack visitedA = []
   \<and> currUrl (loadPage samplePlatform siteB True NetworkError visitedA) = siteA
   \<and> historyStack (loadPage samplePlatform siteB True NetworkError visitedA) = []
   \<and> reader (loadPage samplePlatform siteB True NetworkError visitedA)
       = ErrorView ''Failed to load page. Site may be blocking access or you may be offline.''"
proof -
  have h: "\<not> isLoading visitedA" "currUrl visitedA = siteA" "historyStack visitedA = []"
    by code_simp+
  have ne: "siteB \<noteq> []"
    by (simp add: siteB_def)
  from failed_load_keeps_location [OF h(1) ne, where env = samplePlatform and r = NetworkError
      and status = 0 and ct = None and htmlString = "[]" and b = True] h
  show ?thesis by simp
qed

text \<open>The history stack after a forward load that fails is not the stack before it: from
  the sample page at \<open>siteA\<close>, a load of \<open>siteB\<close> that times out, that answers with a PDF,
  or that answers 404 leaves \<open>siteA\<close> on the stack.\<close>

theorem failed_load_changes_history:
  "\<not> isLoading visitedA \<and> currUrl visitedA = siteA \<and> historyStack visitedA = []
   \<and> historyStack (loadPage samplePlatform siteB False Timeout visitedA) = [siteA]
   \<and> historyStack (loadPage samplePlatform siteB False (Loaded 200 (Some ''application/pdf'') []) visitedA) = [siteA]
   \<and> historyStack (loadPage samplePlatform siteB False (Loaded 404 (Some ''text/html'') []) visitedA) = [siteA]"
  by code_simp




section \<open>URLs: hyperlinks, result links and the URL bar\<close>

lemma getAttribute_setAttribute:
  "getAttribute k (setAttribute k' v as) = (if k = k' then Some v else getAttribute k as)"
  by (simp add: getAttribute_def setAttribute_def update_conv')

lemma getAttribute_removeAttribute:
  "getAttribute k (removeAttribute k' as) = (if k = k' then None else getAttribute k as)"
  by (simp add: getAttribute_def removeAttribute_def delete_conv')

lemma getAttribute_removeEventHandlers:
  "\<not> isEventHandlerName k \<Longrightarrow> getAttribute k (removeEventHandlers as) = getAttribute k as"
  unfolding removeEventHandlers_filter getAttribute_def
  by (induction as) auto

lemma getAttribute_classListAdd:
  "k \<noteq> ''class'' \<Longrightarrow> getAttribute k (classListAdd tok as) = getAttribute k as"
  by (simp add: classListAdd_def Let_def getAttribute_setAttribute)

lemma href_rewriteHref:
  "getAttribute ''href'' as = Some h \<Longrightarrow>
   getAttribute ''href'' (rewriteHref env u as) =
     (if h = [] then Some []
      else case newURLWithBase env h u of
             None \<Rightarrow> None
           | Some resolved \<Rightarrow>
               if protocol resolved \<in> set allowedProtocols then Some (href resolved) else None)"
  by (simp add: rewriteHref_def getAttribute_setAttribute getAttribute_removeAttribute
      split: option.splits)

lemma href_published:
  "getAttribute ''href'' as = Some h \<Longrightarrow>
   getAttribute ''href'' (attributes (normalizeAnchors (processElement env u (Element HTML ''a'' as cs tc)))) =
     (if h = [] then Some []
      else case newURLWithBase env h u of
             None \<Rightarrow> None
           | Some resolved \<Rightarrow>
               if protocol resolved \<in> set allowedProtocols then Some (href resolved) else None)"
proof -
  assume h: "getAttribute ''href'' as = Some h"
  have "getAttribute ''href'' (removeEventHandlers (removeAttribute ''style'' as)) = Some h"
    using h by (simp add: getAttribute_removeEventHandlers getAttribute_removeAttribute)
  from href_rewriteHref [OF this, of env u] show ?thesis
    by (simp add: processAttributes_def Let_def getAttribute_setAttribute getAttribute_removeAttribute
        getAttribute_classListAdd)
qed

lemma startsWith_append: "startsWith s (p @ q) \<Longrightarrow> startsWith s p"
proof -
  assume "startsWith s (p @ q)"
  then have a: "take (length (p @ q)) s = p @ q"
    by (simp add: startsWith_def)
  have "take (length p) s = take (length p) (take (length (p @ q)) s)"
    by (simp add: min_def)
  also have "\<dots> = p"
    unfolding a by simp
  finally show ?thesis
    by (simp add: startsWith_def)
qed

lemma startsWith_http:
  "startsWith input ''http://'' \<or> startsWith input ''https://'' \<Longrightarrow> startsWith input ''http''"
  using startsWith_append [of input "''http''" "''://''"] startsWith_append [of input "''http''" "''s://''"]
  by auto

text \<open>A link in the MathML namespace is no \<^verbatim>\<open>A\<close> for line 146: it keeps its href and its
  target, and \<^verbatim>\<open>setupLinkInteractions\<close> marks it as a link all the same.\<close>

lemma math_link_kept:
  "scrape samplePlatform siteA mathPage
     = Some [Element MathML ''math'' []
               [Element MathML ''a''
                  [(''href'', ''javascript:alert(1)''), (''target'', ''_blank''), (''class'', ''kai-link''),
                   (''tabindex'', ''0'')]
                  [Text ''m''] []] []]"
  by code_simp

text \<open>
  C3. A hyperlink that the pass visits, an HTML \<^verbatim>\<open>a\<close> element among the descendants of the
  source, with an href attribute, stays in the tree, with its children. If the href is not
  empty and resolves against the page's URL to a URL whose protocol is one of \<^verbatim>\<open>http:\<close>,
  \<^verbatim>\<open>https:\<close>, \<^verbatim>\<open>mailto:\<close>, \<^verbatim>\<open>ftp:\<close>, the published href is that URL; if it is not empty and
  resolves to a URL of another protocol, or does not resolve, the published link has no
  href. An empty href is left as it is.
\<close>

theorem hyperlink_href_rewritten:
  assumes "getAttribute ''href'' as = Some h"
  shows "namespace (normalizeAnchors (processElement env u (Element HTML ''a'' as cs tc))) = HTML
    \<and> localName (normalizeAnchors (processElement env u (Element HTML ''a'' as cs tc))) = ''a''
    \<and> length (childNodes (normalizeAnchors (processElement env u (Element HTML ''a'' as cs tc)))) = length cs
    \<and> (h \<noteq> [] \<and> newURLWithBase env h u = Some resolved \<and> protocol resolved \<in> set allowedProtocols
        \<longrightarrow> getAttribute ''href'' (attributes (normalizeAnchors (processElement env u (Element HTML ''a'' as cs tc))))
              = Some (href resolved))
    \<and> (h \<noteq> [] \<and> newURLWithBase env h u = Some resolved \<and> protocol resolved \<notin> set allowedProtocols
        \<longrightarrow> getAttribute ''href'' (attributes (normalizeAnchors (processElement env u (Element HTML ''a'' as cs tc))))
              = None)
    \<and> (h \<noteq> [] \<and> newURLWithBase env h u = None
        \<longrightarrow> getAttribute ''href'' (attributes (normalizeAnchors (processElement env u (Element HTML ''a'' as cs tc))))
              = None)
    \<and> (h = []
        \<longrightarrow> getAttribute ''href'' (attributes (normalizeAnchors (processElement env u (Element HTML ''a'' as cs tc))))
              = Some [])"
proof -
  have "namespace (normalizeAnchors (processElement env u (Element HTML ''a'' as cs tc))) = HTML"
    "localName (normalizeAnchors (processElement env u (Element HTML ''a'' as cs tc))) = ''a''"
    "length (childNodes (normalizeAnchors (processElement env u (Element HTML ''a'' as cs tc)))) = length cs"
    by simp_all
  with href_published [OF assms, of env u cs tc] show ?thesis
    by simp
qed

theorem hyperlink_href_rewritten_witness:
  "getAttribute ''href'' (attributes (normalizeAnchors (processElement samplePlatform siteA
       (HtmlElement ''a'' [(''href'', ''/about''), (''onmouseover'', ''b()''), (''target'', ''_blank'')]
          [Text ''About''])))) 
     = Some ''https://example.com/about''
   \<and> getAttribute ''href'' (attributes (normalizeAnchors (processElement samplePlatform siteA
       (HtmlElement ''a'' [(''href'', ''javascript:alert(1)'')] [Text ''x'']))))
     = None"
proof -
  have g: "getAttribute ''href'' [(''href'', ''/about''), (''onmouseover'', ''b()''), (''target'', ''_blank'')]
      = Some ''/about''"
    "getAttribute ''href'' [(''href'', ''javascript:alert(1)'')] = Some ''javascript:alert(1)''"
    by (simp_all add: getAttribute_def)
  have r: "newURLWithBase samplePlatform ''/about'' siteA
      = Some (mkUrl ''https:'' ''example.com'' ''/about'' [] ''https://example.com/about'')"
    "newURLWithBase samplePlatform ''javascript:alert(1)'' siteA
      = Some (mkUrl ''javascript:'' [] ''alert(1)'' [] ''javascript:alert(1)'')"
    by code_simp+
  have p: "protocol (mkUrl ''https:'' ''example.com'' ''/about'' [] ''https://example.com/about'')
      \<in> set allowedProtocols"
    "protocol (mkUrl ''javascript:'' [] ''alert(1)'' [] ''javascript:alert(1)'') \<notin> set allowedProtocols"
    "href (mkUrl ''https:'' ''example.com'' ''/about'' [] ''https://example.com/about'')
      = ''https://example.com/about''"
    by (simp_all add: mkUrl_def allowedProtocols_def)
  from hyperlink_href_rewritten [OF g(1), of samplePlatform siteA "[Text ''About'']" "[]"
      "mkUrl ''https:'' ''example.com'' ''/about'' [] ''https://example.com/about''"]
    hyperlink_href_rewritten [OF g(2), of samplePlatform siteA "[Text ''x'']" "[]"
      "mkUrl ''javascript:'' [] ''alert(1)'' [] ''javascript:alert(1)''"]
    r p
  show ?thesis by simp
qed

text \<open>The empty href resolves against \<open>siteA\<close> to \<open>siteA\<close>, an https URL, and yet the published
  link keeps the empty href: line 148 skips it.\<close>

theorem empty_href_not_rewritten:
  "newURLWithBase samplePlatform [] siteA = Some (mkUrl ''https:'' ''example.com'' ''/'' [] siteA)
   \<and> protocol (mkUrl ''https:'' ''example.com'' ''/'' [] siteA) \<in> set allowedProtocols
   \<and> href (mkUrl ''https:'' ''example.com'' ''/'' [] siteA) = siteA
   \<and> normalizeAnchors (processElement samplePlatform siteA (HtmlElement ''a'' [(''href'', [])] [Text ''self'']))
       = HtmlElement ''a'' [(''href'', []), (''class'', ''kai-link''), (''tabindex'', ''0''), (''rel'', ''noreferrer'')]
           [Text ''self'']
   \<and> siteA \<noteq> []"
  by code_simp

text \<open>
  C4. If the URL parses, its host name contains \<^verbatim>\<open>duckduckgo.com\<close>, its path begins with
  \<^verbatim>\<open>/l/\<close>, the value that \<^verbatim>\<open>URLSearchParams\<close> returns for its parameter \<^verbatim>\<open>uddg\<close> is not empty,
  \<^verbatim>\<open>decodeURIComponent\<close> leaves that value as it is, and the value parses to a URL with an
  allowed protocol, then the effective URL is that value. If the URL does not parse, or
  the host name or the path is another, or the parameter is missing or empty, or
  \<^verbatim>\<open>decodeURIComponent\<close> throws on the value, or leaves it as it is and it does not parse
  or has another protocol, the effective URL is the URL that was given. The request goes
  to the effective URL, and when \<^verbatim>\<open>xhr.open\<close> accepts it, starting the load changes neither
  the reader nor the notifications.
\<close>

theorem redirector_unwrapped:
  "(newURL env u = Some p \<and> str_includes (hostname p) ''duckduckgo.com'' \<and> startsWith (pathname p) ''/l/''
      \<and> searchParamsGet env (search p) ''uddg'' = Some v \<and> v \<noteq> []
      \<and> decodeURIComponent env v = Some v \<and> newURL env v = Some q
      \<and> protocol q \<in> set allowedProtocols
     \<longrightarrow> unwrapRedirector env u = v)
   \<and> (newURL env u = None
       \<or> (newURL env u = Some p
           \<and> (\<not> str_includes (hostname p) ''duckduckgo.com'' \<or> \<not> startsWith (pathname p) ''/l/''
               \<or> searchParamsGet env (search p) ''uddg'' = None
               \<or> searchParamsGet env (search p) ''uddg'' = Some []
               \<or> (searchParamsGet env (search p) ''uddg'' = Some v
                   \<and> (decodeURIComponent env v = None
                       \<or> (decodeURIComponent env v = Some v
                           \<and> (newURL env v = None
                               \<or> (newURL env v = Some q \<and> protocol q \<notin> set allowedProtocols)))))))
     \<longrightarrow> unwrapRedirector env u = u)
   \<and> (\<not> isLoading st \<and> u \<noteq> [] \<and> xhrOpen env (unwrapRedirector env u)
     \<longrightarrow> snd (loadPage_sync env u b st) = Some (unwrapRedirector env u)
       \<and> reader (fst (loadPage_sync env u b st)) = reader st
       \<and> notifications (fst (loadPage_sync env u b st)) = notifications st)"
proof (intro conjI impI)
  assume "newURL env u = Some p \<and> str_includes (hostname p) ''duckduckgo.com'' \<and> startsWith (pathname p) ''/l/''
      \<and> searchParamsGet env (search p) ''uddg'' = Some v \<and> v \<noteq> []
      \<and> decodeURIComponent env v = Some v \<and> newURL env v = Some q
      \<and> protocol q \<in> set allowedProtocols"
  then show "unwrapRedirector env u = v"
    by (simp add: unwrapRedirector_def)
next
  assume "newURL env u = None
       \<or> (newURL env u = Some p
           \<and> (\<not> str_includes (hostname p) ''duckduckgo.com'' \<or> \<not> startsWith (pathname p) ''/l/''
               \<or> searchParamsGet env (search p) ''uddg'' = None
               \<or> searchParamsGet env (search p) ''uddg'' = Some []
               \<or> (searchParamsGet env (search p) ''uddg'' = Some v
                   \<and> (decodeURIComponent env v = None
                       \<or> (decodeURIComponent env v = Some v
                           \<and> (newURL env v = None
                               \<or> (newURL env v = Some q \<and> protocol q \<notin> set allowedProtocols)))))))"
  then show "unwrapRedirector env u = u"
    by (auto simp: unwrapRedirector_def)
next
  assume a: "\<not> isLoading st \<and> u \<noteq> [] \<and> xhrOpen env (unwrapRedirector env u)"
  then show "snd (loadPage_sync env u b st) = Some (unwrapRedirector env u)"
    by (simp add: loadPage_sync_cases)
  from a show "reader (fst (loadPage_sync env u b st)) = reader st"
    by (simp add: loadPage_sync_cases pushHistory_fields)
  from a show "notifications (fst (loadPage_sync env u b st)) = notifications st"
    by (simp add: loadPage_sync_cases pushHistory_fields)
qed

theorem redirector_unwrapped_witness:
  "unwrapRedirector samplePlatform wrapper1 = siteA
   \<and> snd (loadPage_sync samplePlatform wrapper1 False initialState) = Some siteA
   \<and> unwrapRedirector samplePlatform wrapperJs = wrapperJs
   \<and> unwrapRedirector samplePlatform siteB = siteB"
proof -
  let ?p = "mkUrl ''https:'' ''duckduckgo.com'' ''/l/'' query1 wrapper1"
  let ?q = "mkUrl ''https:'' ''example.com'' ''/'' [] siteA"
  let ?pj = "mkUrl ''https:'' ''duckduckgo.com'' ''/l/'' queryJs wrapperJs"
  let ?qj = "mkUrl ''javascript:'' [] ''alert(1)'' [] ''javascript:alert(1)''"
  let ?pb = "mkUrl ''https:'' ''example.org'' ''/news'' [] siteB"
  have p: "newURL samplePlatform wrapper1 = Some ?p"
    "str_includes (hostname ?p) ''duckduckgo.com''"
    "startsWith (pathname ?p) ''/l/''"
    "searchParamsGet samplePlatform (search ?p) ''uddg'' = Some siteA"
    "siteA \<noteq> []"
    "decodeURIComponent samplePlatform siteA = Some siteA"
    "newURL samplePlatform siteA = Some ?q"
    "protocol ?q \<in> set allowedProtocols"
    by code_simp+
  have j: "newURL samplePlatform wrapperJs = Some ?pj"
    "searchParamsGet samplePlatform (search ?pj) ''uddg'' = Some ''javascript:alert(1)''"
    "decodeURIComponent samplePlatform ''javascript:alert(1)'' = Some ''javascript:alert(1)''"
    "newURL samplePlatform ''javascript:alert(1)'' = Some ?qj"
    "protocol ?qj \<notin> set allowedProtocols"
    by code_simp+
  have b: "newURL samplePlatform siteB = Some ?pb"
    "\<not> str_includes (hostname ?pb) ''duckduckgo.com''"
    by code_simp+
  have i: "\<not> isLoading initialState" "wrapper1 \<noteq> []" "xhrOpen samplePlatform siteA"
    by code_simp+
  have w1: "unwrapRedirector samplePlatform wrapper1 = siteA"
    using redirector_unwrapped [of samplePlatform wrapper1 ?p siteA ?q initialState False] p
    by simp
  have w2: "snd (loadPage_sync samplePlatform wrapper1 False initialState) = Some siteA"
    using redirector_unwrapped [of samplePlatform wrapper1 ?p siteA ?q initialState False] w1 i
    by simp
  have w3: "unwrapRedirector samplePlatform wrapperJs = wrapperJs"
    using redirector_unwrapped [of samplePlatform wrapperJs ?pj "''javascript:alert(1)''" ?qj initialState False] j
    by simp
  have w4: "unwrapRedirector samplePlatform siteB = siteB"
    using redirector_unwrapped [of samplePlatform siteB ?pb "[]" ?qj initialState False] b
    by simp
  from w1 w2 w3 w4 show ?thesis
    by simp
qed

text \<open>A host that only contains the name of the search engine: the link is unwrapped. And a
  result link whose target has an escaped ampersand: the target is decoded by
  \<^verbatim>\<open>URLSearchParams\<close> and once more by \<^verbatim>\<open>decodeURIComponent\<close>, and the URL that is loaded is
  not the target.\<close>

theorem redirector_unwrapped_counterexample:
  "newURL samplePlatform wrapperEvil
     = Some (mkUrl ''https:'' ''evil-duckduckgo.com.test'' ''/l/'' query1 wrapperEvil)
   \<and> unwrapRedirector samplePlatform wrapperEvil = ''https://example.com/''
   \<and> wrapperEvil \<noteq> ''https://example.com/''
   \<and> searchParamsGet samplePlatform queryAmp ''uddg'' = Some ''https://example.com/?q=a%26b''
   \<and> newURL samplePlatform ''https://example.com/?q=a%26b''
       = Some (mkUrl ''https:'' ''example.com'' ''/'' ''?q=a%26b'' ''https://example.com/?q=a%26b'')
   \<and> unwrapRedirector samplePlatform wrapperAmp = ''https://example.com/?q=a&b''"
  by code_simp

text \<open>
  C5. For the trimmed, non-empty input of the URL bar: without a \<^verbatim>\<open>.\<close>, or with a space
  (U+0020), the URL is the search URL with the input percent-encoded as \<^verbatim>\<open>q\<close>. Otherwise,
  an input that does not begin with \<^verbatim>\<open>http\<close> gets \<^verbatim>\<open>https://\<close> in front, and an input that
  begins with \<^verbatim>\<open>http://\<close> or \<^verbatim>\<open>https://\<close> is taken as it is; if the result does not parse the
  submission fails: the reader shows the error, nothing else changes and no request is
  sent. A URL that is produced is loaded as a forward navigation after closing the bar.
\<close>

theorem url_bar_resolution:
  assumes "input = trim (urlInput st)" and "input \<noteq> []"
  shows "(\<not> str_includes input ''.'' \<or> str_includes input '' ''
        \<longrightarrow> submittedUrl env input = Inr (''https://duckduckgo.com/html/?q='' @ encodeURIComponent input))
    \<and> (str_includes input ''.'' \<and> \<not> str_includes input '' '' \<and> \<not> startsWith input ''http''
        \<longrightarrow> submittedUrl env input
              = (if newURL env (''https://'' @ input) = None then Inl InvalidUrlFormat
                 else Inr (''https://'' @ input)))
    \<and> (str_includes input ''.'' \<and> \<not> str_includes input '' ''
          \<and> (startsWith input ''http://'' \<or> startsWith input ''https://'')
        \<longrightarrow> submittedUrl env input = (if newURL env input = None then Inl InvalidUrlFormat else Inr input))
    \<and> (submittedUrl env input = Inl InvalidUrlFormat
        \<longrightarrow> handleUrlSubmit env st
              = (st\<lparr>reader := ErrorView ''Invalid URL format. Please enter a valid website address.''\<rparr>, None))
    \<and> (submittedUrl env input = Inr target
        \<longrightarrow> handleUrlSubmit env st = loadPage_sync env target False (toggleUrlBar st))"
proof (intro conjI impI)
  assume "\<not> str_includes input ''.'' \<or> str_includes input '' ''"
  then show "submittedUrl env input = Inr (''https://duckduckgo.com/html/?q='' @ encodeURIComponent input)"
    by (auto simp: submittedUrl_def)
next
  assume "str_includes input ''.'' \<and> \<not> str_includes input '' '' \<and> \<not> startsWith input ''http''"
  then show "submittedUrl env input
      = (if newURL env (''https://'' @ input) = None then Inl InvalidUrlFormat else Inr (''https://'' @ input))"
    by (auto simp: submittedUrl_def split: option.splits)
next
  assume a: "str_includes input ''.'' \<and> \<not> str_includes input '' ''
      \<and> (startsWith input ''http://'' \<or> startsWith input ''https://'')"
  then have "startsWith input ''http''"
    using startsWith_http by blast
  with a show "submittedUrl env input = (if newURL env input = None then Inl InvalidUrlFormat else Inr input)"
    by (auto simp: submittedUrl_def split: option.splits)
next
  assume "submittedUrl env input = Inl InvalidUrlFormat"
  with assms show "handleUrlSubmit env st
      = (st\<lparr>reader := ErrorView ''Invalid URL format. Please enter a valid website address.''\<rparr>, None)"
    by (simp add: handleUrlSubmit_def Let_def showError_def)
next
  assume "submittedUrl env input = Inr target"
  with assms show "handleUrlSubmit env st = loadPage_sync env target False (toggleUrlBar st)"
    by (simp add: handleUrlSubmit_def Let_def)
qed

theorem url_bar_resolution_witness:
  "submittedUrl samplePlatform ''openai research'' = Inr ''https://duckduckgo.com/html/?q=openai%20research''
   \<and> submittedUrl samplePlatform ''example.com'' = Inr ''https://example.com''
   \<and> snd (handleUrlSubmit samplePlatform (initialState\<lparr>isUrlBarOpen := True, urlInput := '' example.com ''\<rparr>))
       = Some ''https://example.com''
   \<and> submittedUrl samplePlatform ''exa mple.'' = Inr ''https://duckduckgo.com/html/?q=exa%20mple.''
   \<and> submittedUrl samplePlatform ''https://example.org/news'' = Inr ''https://example.org/news''
   \<and> handleUrlSubmit samplePlatform (initialState\<lparr>isUrlBarOpen := True, urlInput := ''[bad.''\<rparr>)
       = (initialState\<lparr>isUrlBarOpen := True, urlInput := ''[bad.'',
            reader := ErrorView ''Invalid URL format. Please enter a valid website address.''\<rparr>, None)"
proof -
  let ?st = "initialState\<lparr>isUrlBarOpen := True, urlInput := '' example.com ''\<rparr>"
  let ?bad = "initialState\<lparr>isUrlBarOpen := True, urlInput := ''[bad.''\<rparr>"
  have t: "''example.com'' = trim (urlInput ?st)" "''[bad.'' = trim (urlInput ?bad)"
    "''openai research'' = trim (urlInput (initialState\<lparr>urlInput := ''openai research''\<rparr>))"
    "''exa mple.'' = trim (urlInput (initialState\<lparr>urlInput := ''exa mple.''\<rparr>))"
    "''https://example.org/news'' = trim (urlInput (initialState\<lparr>urlInput := ''https://example.org/news''\<rparr>))"
    by code_simp+
  have c: "str_includes ''example.com'' ''.''" "\<not> str_includes ''example.com'' '' ''"
    "\<not> startsWith ''example.com'' ''http''" "newURL samplePlatform ''https://example.com'' \<noteq> None"
    "str_includes ''[bad.'' ''.''" "\<not> str_includes ''[bad.'' '' ''"
    "\<not> startsWith ''[bad.'' ''http''" "newURL samplePlatform ''https://[bad.'' = None"
    "\<not> str_includes ''openai research'' ''.''" "str_includes ''exa mple.'' '' ''"
    "str_includes ''https://example.org/news'' ''.''" "\<not> str_includes ''https://example.org/news'' '' ''"
    "startsWith ''https://example.org/news'' ''https://''"
    "newURL samplePlatform ''https://example.org/news'' \<noteq> None"
    by code_simp+
  have e: "encodeURIComponent ''openai research'' = ''openai%20research''"
    "encodeURIComponent ''exa mple.'' = ''exa%20mple.''"
    by code_simp+
  have l: "snd (loadPage_sync samplePlatform ''https://example.com'' False (toggleUrlBar ?st))
      = Some ''https://example.com''"
    by code_simp
  have w1: "submittedUrl samplePlatform ''openai research'' = Inr ''https://duckduckgo.com/html/?q=openai%20research''"
    using url_bar_resolution [OF t(3), of samplePlatform "[]"] c(9) e(1)
    by (simp del: str_includes.simps)
  have w2: "submittedUrl samplePlatform ''example.com'' = Inr ''https://example.com''"
    using url_bar_resolution [OF t(1), of samplePlatform "[]"] c(1-4)
    by (simp del: str_includes.simps)
  have w3: "snd (handleUrlSubmit samplePlatform ?st) = Some ''https://example.com''"
    using url_bar_resolution [OF t(1), of samplePlatform "''https://example.com''"] w2 l
    by (simp del: str_includes.simps)
  have w4: "submittedUrl samplePlatform ''exa mple.'' = Inr ''https://duckduckgo.com/html/?q=exa%20mple.''"
    using url_bar_resolution [OF t(4), of samplePlatform "[]"] c(10) e(2)
    by (simp del: str_includes.simps)
  have w5: "submittedUrl samplePlatform ''https://example.org/news'' = Inr ''https://example.org/news''"
    using url_bar_resolution [OF t(5), of samplePlatform "[]"] c(11-14)
    by (simp del: str_includes.simps)
  have w6: "submittedUrl samplePlatform ''[bad.'' = Inl InvalidUrlFormat"
    using url_bar_resolution [OF t(2), of samplePlatform "[]"] c(5-8)
    by (simp del: str_includes.simps)
  have w7: "handleUrlSubmit samplePlatform ?bad
      = (?bad\<lparr>reader := ErrorView ''Invalid URL format. Please enter a valid website address.''\<rparr>, None)"
    using url_bar_resolution [OF t(2), of samplePlatform "[]"] w6
    by (simp del: str_includes.simps)
  from w1 w2 w3 w4 w5 w7 show ?thesis
    by simp
qed

text \<open>An input with a TAB and a \<^verbatim>\<open>.\<close> contains white space and is not searched for but
  loaded as a URL; and \<^verbatim>\<open>httpbin.org\<close>, which has no scheme, gets no \<^verbatim>\<open>https://\<close> and is
  rejected, although \<^verbatim>\<open>https://httpbin.org\<close> parses.\<close>

theorem url_bar_resolution_counterexample:
  "trim tabbedInput = tabbedInput \<and> list_ex isWhiteSpace tabbedInput \<and> str_includes tabbedInput ''.''
   \<and> submittedUrl samplePlatform tabbedInput = Inr (''https://'' @ tabbedInput)
   \<and> ''https://'' @ tabbedInput \<noteq> ''https://duckduckgo.com/html/?q='' @ encodeURIComponent tabbedInput
   \<and> trim ''httpbin.org'' = ''httpbin.org'' \<and> str_includes ''httpbin.org'' ''.''
   \<and> \<not> list_ex isWhiteSpace ''httpbin.org''
   \<and> newURL samplePlatform ''https://httpbin.org''
       = Some (mkUrl ''https:'' ''httpbin.org'' ''/'' [] ''https://httpbin.org/'')
   \<and> submittedUrl samplePlatform ''httpbin.org'' = Inl InvalidUrlFormat"
  by code_simp

section \<open>The order of the links\<close>

lemma compareEntries_le:
  "(compareEntries a b \<le> 0) = ((top a, left a) \<le> (top b, left b))"
  by (auto simp: compareEntries_def less_eq_prod_def)

lemma insertSorted_insort_key:
  "insertSorted compareEntries x ys = insort_key (\<lambda>e. (top e, left e)) x ys"
  by (induction ys) (simp_all add: compareEntries_le)

lemma arraySort_sort_key:
  "arraySort compareEntries xs = sort_key (\<lambda>e. (top e, left e)) xs"
  unfolding arraySort_def sort_key_def
  by (induction xs) (simp_all add: insertSorted_insort_key)

lemma insort_key_map:
  "insort_key f (g x) (map g ys) = map g (insort_key (\<lambda>y. f (g y)) x ys)"
  by (induction ys) simp_all

lemma sort_key_map:
  "sort_key f (map g xs) = map g (sort_key (\<lambda>y. f (g y)) xs)"
  by (induction xs) (simp_all add: insort_key_map)

lemma sorted_entries:
  assumes "\<And>l. el (g l) = l"
  shows "map el (arraySort compareEntries (map g links)) = sort_key (\<lambda>l. (top (g l), left (g l))) links"
proof -
  have "el \<circ> g = id"
    by (simp add: fun_eq_iff assms)
  then show ?thesis
    by (simp add: arraySort_sort_key sort_key_map)
qed

lemma getSortedLinks_sort_key:
  "getSortedLinks links = (if allTopsZero links then sort_key hintKey links else sort_key measuredKey links)"
proof -
  have m: "map el (arraySort compareEntries (map measuredEntry links)) = sort_key measuredKey links"
    using sorted_entries [of measuredEntry links]
    by (simp add: measuredEntry_def measuredKey_def [abs_def])
  have f: "map el (arraySort compareEntries (map fallbackEntry links)) = sort_key hintKey links"
    using sorted_entries [of fallbackEntry links]
    by (simp add: fallbackEntry_def hintKey_def [abs_def])
  have z: "list_all (\<lambda>m. top m = 0) (map measuredEntry links) = allTopsZero links"
    by (simp add: allTopsZero_def list_all_iff measuredEntry_def)
  show ?thesis
    by (simp add: getSortedLinks_def Let_def m f z)
qed

lemma sorted_byTopLeft:
  "sorted_wrt (byTopLeft key) (sort_key key links)"
proof -
  have "sorted (map key (sort_key key links))"
    by (rule sorted_sort_key)
  then have "sorted_wrt (\<lambda>a b. key a \<le> key b) (sort_key key links)"
    by (simp add: sorted_map)
  moreover have "(\<lambda>a b. key a \<le> key b) = byTopLeft key"
    by (auto simp: byTopLeft_def less_eq_prod_def fun_eq_iff)
  ultimately show ?thesis
    by simp
qed

text \<open>
  C7. For every list of links, \<^verbatim>\<open>getSortedLinks\<close> returns a permutation of it, of the same
  length. When some rounded top is not 0 the result is ordered by the rounded measured
  top, ties by the rounded measured left, and links with equal measured keys keep their
  order; when every rounded top is 0 the same holds with the keys read from \<^verbatim>\<open>data-top\<close>
  and \<^verbatim>\<open>data-left\<close>, as the numbers that \<^verbatim>\<open>parseInt\<close> makes of them, in place of the
  measured ones.
\<close>

theorem sorted_links:
  "mset (getSortedLinks links) = mset links
   \<and> length (getSortedLinks links) = length links
   \<and> (\<not> allTopsZero links \<longrightarrow>
        sorted_wrt (byTopLeft measuredKey) (getSortedLinks links)
        \<and> filter (\<lambda>l. measuredKey l = k) (getSortedLinks links) = filter (\<lambda>l. measuredKey l = k) links)
   \<and> (allTopsZero links \<longrightarrow>
        sorted_wrt (byTopLeft hintKey) (getSortedLinks links)
        \<and> filter (\<lambda>l. hintKey l = k) (getSortedLinks links) = filter (\<lambda>l. hintKey l = k) links)"
  by (simp add: getSortedLinks_sort_key sorted_byTopLeft sort_key_stable)

theorem sorted_links_witness:
  "\<not> allTopsZero pageLinks
   \<and> getSortedLinks pageLinks
       = [mkAnchor 6 (- 5) 10 None None, mkAnchor 7 4 20 None None, mkAnchor 8 4 20 None None,
          mkAnchor 5 (7 / 2) 50 None None]
   \<and> sorted_wrt (byTopLeft measuredKey) (getSortedLinks pageLinks)
   \<and> filter (\<lambda>l. measuredKey l = (4, 20)) (getSortedLinks pageLinks)
       = [mkAnchor 7 4 20 None None, mkAnchor 8 4 20 None None]
   \<and> length (getSortedLinks pageLinks) = 4
   \<and> allTopsZero hintedLinks
   \<and> sorted_wrt (byTopLeft hintKey) (getSortedLinks hintedLinks)
   \<and> filter (\<lambda>l. hintKey l = (10, 0)) (getSortedLinks hintedLinks)
       = [mkAnchor 10 (1 / 4) 0 (Some '' 10px'') None]"
proof -
  have z: "\<not> allTopsZero pageLinks" "allTopsZero hintedLinks"
    by code_simp+
  have r: "getSortedLinks pageLinks
       = [mkAnchor 6 (- 5) 10 None None, mkAnchor 7 4 20 None None, mkAnchor 8 4 20 None None,
          mkAnchor 5 (7 / 2) 50 None None]"
    by code_simp
  have f: "filter (\<lambda>l. measuredKey l = (4, 20)) pageLinks
       = [mkAnchor 7 4 20 None None, mkAnchor 8 4 20 None None]"
    "filter (\<lambda>l. hintKey l = (10, 0)) hintedLinks = [mkAnchor 10 (1 / 4) 0 (Some '' 10px'') None]"
    by code_simp+
  have l: "length pageLinks = 4"
    by (simp add: pageLinks_def)
  from sorted_links [of pageLinks "(4, 20)"] z f l
  have p: "sorted_wrt (byTopLeft measuredKey) (getSortedLinks pageLinks)"
    "filter (\<lambda>l. measuredKey l = (4, 20)) (getSortedLinks pageLinks)
       = [mkAnchor 7 4 20 None None, mkAnchor 8 4 20 None None]"
    "length (getSortedLinks pageLinks) = 4"
    by simp_all
  from sorted_links [of hintedLinks "(10, 0)"] z f
  have h: "sorted_wrt (byTopLeft hintKey) (getSortedLinks hintedLinks)"
    "filter (\<lambda>l. hintKey l = (10, 0)) (getSortedLinks hintedLinks)
       = [mkAnchor 10 (1 / 4) 0 (Some '' 10px'') None]"
    by simp_all
  from z r p h show ?thesis
    by simp
qed

text \<open>Two links without layout, every rectangle zero, whose hints are out of order: the
  measured keys are equal and the result is the input reversed, so links with equal
  measured keys do not keep their order.\<close>

theorem sorted_links_counterexample:
  "noLayoutLinks = [mkAnchor 11 0 0 (Some ''30'') None, mkAnchor 12 0 0 (Some ''10'') None]
   \<and> map measuredKey noLayoutLinks = [(0, 0), (0, 0)]
   \<and> map hintKey noLayoutLinks = [(30, 0), (10, 0)]
   \<and> getSortedLinks noLayoutLinks = rev noLayoutLinks
   \<and> rev noLayoutLinks \<noteq> noLayoutLinks"
  by code_simp

text \<open>
  C8. When every link has the rounded measured top 0 (also when there is no link) the
  result is the stable sort of the links by the keys read from \<^verbatim>\<open>data-top\<close> and
  \<^verbatim>\<open>data-left\<close>, as the numbers that \<^verbatim>\<open>parseInt\<close> makes of them; when some rounded top is
  not 0 it is the stable sort by the rounded measured top and left.
\<close>

theorem fallback_on_zero_tops:
  "(allTopsZero links \<longrightarrow> getSortedLinks links = sort_key hintKey links)
   \<and> (\<not> allTopsZero links \<longrightarrow> getSortedLinks links = sort_key measuredKey links)"
  by (simp add: getSortedLinks_sort_key)

theorem fallback_on_zero_tops_witness:
  "allTopsZero hintedLinks
   \<and> map hintKey hintedLinks = [(30, 2), (10, 0)]
   \<and> getSortedLinks hintedLinks = rev hintedLinks
   \<and> \<not> allTopsZero pageLinks
   \<and> map measuredKey pageLinks = [(4, 50), (- 5, 10), (4, 20), (4, 20)]
   \<and> map element (getSortedLinks pageLinks) = [6, 7, 8, 5]
   \<and> allTopsZero bigHintLinks
   \<and> map hintKey bigHintLinks = [(9007199254740992, 0), (9007199254740992, 0)]
   \<and> getSortedLinks bigHintLinks = bigHintLinks"
proof -
  have z: "allTopsZero hintedLinks" "\<not> allTopsZero pageLinks" "allTopsZero bigHintLinks"
    by code_simp+
  have k: "map hintKey hintedLinks = [(30, 2), (10, 0)]"
    "map measuredKey pageLinks = [(4, 50), (- 5, 10), (4, 20), (4, 20)]"
    "map hintKey bigHintLinks = [(9007199254740992, 0), (9007199254740992, 0)]"
    by code_simp+
  have s: "sort_key hintKey hintedLinks = rev hintedLinks"
    "map element (sort_key measuredKey pageLinks) = [6, 7, 8, 5]"
    "sort_key hintKey bigHintLinks = bigHintLinks"
    by code_simp+
  from fallback_on_zero_tops [of hintedLinks] fallback_on_zero_tops [of pageLinks]
    fallback_on_zero_tops [of bigHintLinks] z k s
  show ?thesis by simp
qed

text \<open>Two links with the same measured top 5: the hints would keep the input order, and
  the result is the input reversed, the order of the measured lefts.\<close>

theorem fallback_on_zero_tops_counterexample:
  "lineLinks = [mkAnchor 3 5 50 (Some ''1'') None, mkAnchor 4 5 10 (Some ''2'') None]
   \<and> map (\<lambda>l. mathRound (rectTop l)) lineLinks = [5, 5]
   \<and> map hintKey lineLinks = [(1, 0), (2, 0)]
   \<and> sort_key hintKey lineLinks = lineLinks
   \<and> getSortedLinks lineLinks = rev lineLinks
   \<and> rev lineLinks \<noteq> lineLinks"
  by code_simp

end
